theory Spec2Isabelle
  imports Complex_Main
begin

section \<open>Batched level-wise decision-tree builder: objectives and driver\<close>

text \<open>
  The development embeds two source files: the classification objectives
  (\<open>GiniObjectiveFunction\<close>, \<open>EntropyObjectiveFunction\<close>) and the host-side driver
  \<open>Builder\<close> of \<open>builder_base.cuh\<close>.

  Conventions of the embedding.
  \<^item> \<open>IdxT\<close> and \<open>int\<close> of the source are HOL \<open>int\<close>. Signed overflow is undefined
    behaviour in C++, so the model describes the executions in which every signed
    intermediate result is representable; theorems that depend on it carry the range as
    a hypothesis.
  \<^item> \<open>size_t\<close> is \<open>nat\<close> with the wrap-around modulo \<open>2 ^ 64\<close> written out at
    every operation.
  \<^item> \<open>DataT\<close> (\<open>float\<close> or \<open>double\<close>) is \<open>real\<close>: the arithmetic of the objectives is
    modelled exactly, rounding is not modelled. A division by zero, which gives an
    infinity or a NaN in the source, is outside this model; theorems about computed gains
    assume the divisors are nonzero. The gains that the properties below evaluate are
    taken at inputs where the rounded computation gives the same values: the Gini terms
    there are the binary fractions \<open>1 / 2\<close> and \<open>1 / 4\<close>, and the entropy quotient
    \<open>log (1 / 2) / log 2\<close> is \<open>- 1\<close> in either arithmetic.
    \<open>regressionMetricGain\<close> is not embedded: what it returns at the threshold
    \<open>min_impurity_decrease\<close> is decided by the rounding of its \<open>DataT\<close> operations,
    which exact arithmetic does not describe.
  \<^item> A raw pointer that is only indexed (\<open>shist\<close>, \<open>sbins\<close>) is a function from the
    index to the element.
  \<^item> A pointer that is compared with \<open>nullptr\<close> is an \<open>option\<close> of an address;
    \<open>None\<close> is \<open>nullptr\<close>.
\<close>

subsection \<open>Conversions and constants\<close>

text \<open>Conversion of a floating-point value to an integer type truncates toward zero.\<close>

definition trunc :: "real \<Rightarrow> int" where
  "trunc x = (if 0 \<le> x then \<lfloor>x\<rfloor> else \<lceil>x\<rceil>)"

text \<open>\<open>NumericLimits<float>::kMax\<close> and \<open>NumericLimits<double>::kMax\<close>. The objectives
  below take the constant of their \<open>DataT\<close> as the parameter \<open>kMax\<close>.\<close>

definition kMax_float :: real where
  "kMax_float = (2 - 1 / 2 ^ 23) * 2 ^ 127"

definition kMax_double :: real where
  "kMax_double = (2 - 1 / 2 ^ 52) * 2 ^ 1023"

subsection \<open>Split candidates and the per-thread loop over bins\<close>

text \<open>Modelled from the spec: \<open>split.cuh\<close> is not among the sources. A split is the record
  \<open>{threshold, column, gain, nLeft}\<close> (the fields carry the prefix \<open>sp_\<close> here, as
  \<open>gain\<close> and \<open>nLeft\<close> are local variables of the objectives); the objectives build
  one by the brace initialiser \<open>{sbins[i], col, gain, nLeft}\<close>.\<close>

record Split =
  sp_threshold :: real
  sp_column :: int
  sp_gain :: real
  sp_nLeft :: int

text \<open>
  Both objectives run the same loop
  \<^verbatim>\<open>for (IdxT i = threadIdx.x; i < nbins; i += blockDim.x) { ...; sp.update({...}); }\<close>.
  \<open>Split::update\<close> is declared in \<open>split.cuh\<close>, so it is the parameter \<open>update\<close>;
  \<open>cand i\<close> is the candidate the loop body builds for bin \<open>i\<close>. A kernel launch has
  \<open>blockDim.x \<ge> 1\<close>; the test \<open>0 < blockDim\<close> only makes the recursion well founded.
\<close>

function bin_loop ::
  "(Split \<Rightarrow> Split \<Rightarrow> Split) \<Rightarrow> (int \<Rightarrow> Split) \<Rightarrow> int \<Rightarrow> int \<Rightarrow> int \<Rightarrow> Split \<Rightarrow> Split"
where
  "bin_loop update cand nbins blockDim i sp =
     (if i < nbins \<and> 0 < blockDim
      then bin_loop update cand nbins blockDim (i + blockDim) (update sp (cand i))
      else sp)"
  by pat_completeness auto
termination
  by (relation "measure (\<lambda>(update, cand, nbins, blockDim, i, sp). nat (nbins - i))") auto

declare bin_loop.simps [simp del]

text \<open>The bins the loop visits, in order: \<open>i\<close>, \<open>i + blockDim\<close>, \<dots> below \<open>nbins\<close>.\<close>

function thread_bins :: "int \<Rightarrow> int \<Rightarrow> int \<Rightarrow> int list" where
  "thread_bins nbins blockDim i =
     (if i < nbins \<and> 0 < blockDim then i # thread_bins nbins blockDim (i + blockDim) else [])"
  by pat_completeness auto
termination
  by (relation "measure (\<lambda>(nbins, blockDim, i). nat (nbins - i))") auto

declare thread_bins.simps [simp del]

subsection \<open>Gini objective\<close>

record GiniObjectiveFunction =
  gini_nclasses :: int
  gini_min_impurity_decrease :: real
  gini_min_samples_leaf :: int

text \<open>
  The constructor is declared
  \<^verbatim>\<open>GiniObjectiveFunction(DataT nclasses, IdxT min_impurity_decrease, IdxT min_samples_leaf)\<close>:
  the class count arrives as a \<open>DataT\<close> and the impurity threshold as an \<open>IdxT\<close>, and
  the member initialisers convert them to the members' types \<open>IdxT\<close> and \<open>DataT\<close>.
\<close>

definition GiniObjectiveFunction_ctor :: "real \<Rightarrow> int \<Rightarrow> int \<Rightarrow> GiniObjectiveFunction" where
  "GiniObjectiveFunction_ctor nclasses min_impurity_decrease min_samples_leaf =
     \<lparr> gini_nclasses = trunc nclasses,
       gini_min_impurity_decrease = real_of_int min_impurity_decrease,
       gini_min_samples_leaf = min_samples_leaf \<rparr>"

text \<open>The first inner loop: \<open>nLeft += shist[2 * nbins * j + i]\<close> for every class \<open>j\<close>.\<close>

definition hist_nLeft :: "int \<Rightarrow> (int \<Rightarrow> int) \<Rightarrow> int \<Rightarrow> int \<Rightarrow> int" where
  "hist_nLeft nclasses shist nbins i =
     foldl (\<lambda>nLeft j. nLeft + shist (2 * nbins * j + i)) 0 [0..nclasses - 1]"

text \<open>One pass of the second inner loop of \<open>GiniObjectiveFunction::Gain\<close> (class \<open>j\<close>).\<close>

definition Gini_class_step ::
  "(int \<Rightarrow> int) \<Rightarrow> int \<Rightarrow> int \<Rightarrow> real \<Rightarrow> real \<Rightarrow> real \<Rightarrow> real \<Rightarrow> int \<Rightarrow> real" where
  "Gini_class_step shist nbins i invlen invLeft invRight gain j =
     (let lval_i = shist (2 * nbins * j + i);
          lval = real_of_int lval_i;
          gain1 = gain + lval * invLeft * lval * invlen;
          rval_i = shist (2 * nbins * j + nbins + i);
          rval = real_of_int rval_i;
          gain2 = gain1 + rval * invRight * rval * invlen;
          val_i = 0 + lval_i + rval_i;
          val = real_of_int val_i * invlen
      in gain2 - val * val)"

text \<open>The body of the loop over bins of \<open>GiniObjectiveFunction::Gain\<close>: the candidate
  \<open>{sbins[i], col, gain, nLeft}\<close> of bin \<open>i\<close>.\<close>

definition Gini_candidate ::
  "real \<Rightarrow> GiniObjectiveFunction \<Rightarrow> (int \<Rightarrow> int) \<Rightarrow> (int \<Rightarrow> real) \<Rightarrow> int \<Rightarrow> int \<Rightarrow> int \<Rightarrow> int \<Rightarrow> Split"
where
  "Gini_candidate kMax obj shist sbins col len nbins i =
     (let invlen = 1 / real_of_int len;
          nLeft = hist_nLeft (gini_nclasses obj) shist nbins i;
          nRight = len - nLeft;
          gain =
            (if nLeft < gini_min_samples_leaf obj \<or> nRight < gini_min_samples_leaf obj
             then - kMax
             else
               (let invLeft = 1 / real_of_int nLeft;
                    invRight = 1 / real_of_int nRight
                in foldl (Gini_class_step shist nbins i invlen invLeft invRight) 0
                     [0..gini_nclasses obj - 1]));
          gain' = (if gain \<le> gini_min_impurity_decrease obj then - kMax else gain)
      in \<lparr> sp_threshold = sbins i, sp_column = col, sp_gain = gain', sp_nLeft = nLeft \<rparr>)"

text \<open>\<open>GiniObjectiveFunction::Gain\<close>, as run by the thread \<open>threadIdx\<close> of a block of
  \<open>blockDim\<close> threads; \<open>sp0\<close> is the default-constructed \<open>Split sp\<close>.\<close>

definition Gini_Gain ::
  "(Split \<Rightarrow> Split \<Rightarrow> Split) \<Rightarrow> Split \<Rightarrow> int \<Rightarrow> int \<Rightarrow> real \<Rightarrow> GiniObjectiveFunction \<Rightarrow>
   (int \<Rightarrow> int) \<Rightarrow> (int \<Rightarrow> real) \<Rightarrow> int \<Rightarrow> int \<Rightarrow> int \<Rightarrow> Split"
where
  "Gini_Gain update sp0 threadIdx blockDim kMax obj shist sbins col len nbins =
     bin_loop update (Gini_candidate kMax obj shist sbins col len nbins) nbins blockDim
       threadIdx sp0"

subsection \<open>Entropy objective\<close>

record EntropyObjectiveFunction =
  entropy_nclasses :: int
  entropy_min_impurity_decrease :: real
  entropy_min_samples_leaf :: int

text \<open>
  The constructor is declared
  \<^verbatim>\<open>EntropyObjectiveFunction(DataT nclasses, IdxT min_impurity_decreas, IdxT min_samples_leafe)
    : nclasses(nclasses),
      min_impurity_decrease(min_impurity_decrease),
      min_samples_leaf(min_samples_leaf) {}\<close>
  The second and third parameter are spelled \<open>min_impurity_decreas\<close> and
  \<open>min_samples_leafe\<close>, so inside the member initialisers the names
  \<open>min_impurity_decrease\<close> and \<open>min_samples_leaf\<close> denote the members themselves: each of the
  two members is initialised from its own not yet initialised storage. The model makes
  that storage explicit: \<open>storage\<close> is the content of the object's memory before the
  constructor runs.
\<close>

definition EntropyObjectiveFunction_ctor ::
  "EntropyObjectiveFunction \<Rightarrow> real \<Rightarrow> int \<Rightarrow> int \<Rightarrow> EntropyObjectiveFunction" where
  "EntropyObjectiveFunction_ctor storage nclasses min_impurity_decreas min_samples_leafe =
     \<lparr> entropy_nclasses = trunc nclasses,
       entropy_min_impurity_decrease = entropy_min_impurity_decrease storage,
       entropy_min_samples_leaf = entropy_min_samples_leaf storage \<rparr>"

text \<open>\<open>raft::myLog\<close> is the natural logarithm of the \<open>DataT\<close>.\<close>

definition myLog :: "real \<Rightarrow> real" where
  "myLog x = ln x"

definition Entropy_class_step ::
  "(int \<Rightarrow> int) \<Rightarrow> int \<Rightarrow> int \<Rightarrow> real \<Rightarrow> real \<Rightarrow> real \<Rightarrow> real \<Rightarrow> int \<Rightarrow> real" where
  "Entropy_class_step shist nbins i invlen invLeft invRight gain j =
     (let lval_i = shist (2 * nbins * j + i);
          gain1 =
            (if lval_i \<noteq> 0
             then (let lval = real_of_int lval_i
                   in gain + myLog (lval * invLeft) / myLog 2 * lval * invlen)
             else gain);
          rval_i = shist (2 * nbins * j + nbins + i);
          gain2 =
            (if rval_i \<noteq> 0
             then (let rval = real_of_int rval_i
                   in gain1 + myLog (rval * invRight) / myLog 2 * rval * invlen)
             else gain1);
          val_i = 0 + lval_i + rval_i
      in (if val_i \<noteq> 0
          then (let val = real_of_int val_i * invlen
                in gain2 - val * myLog val / myLog 2)
          else gain2))"

definition Entropy_candidate ::
  "real \<Rightarrow> EntropyObjectiveFunction \<Rightarrow> (int \<Rightarrow> int) \<Rightarrow> (int \<Rightarrow> real) \<Rightarrow> int \<Rightarrow> int \<Rightarrow> int \<Rightarrow> int \<Rightarrow>
   Split"
where
  "Entropy_candidate kMax obj shist sbins col len nbins i =
     (let invlen = 1 / real_of_int len;
          nLeft = hist_nLeft (entropy_nclasses obj) shist nbins i;
          nRight = len - nLeft;
          gain =
            (if nLeft < entropy_min_samples_leaf obj \<or> nRight < entropy_min_samples_leaf obj
             then - kMax
             else
               (let invLeft = 1 / real_of_int nLeft;
                    invRight = 1 / real_of_int nRight
                in foldl (Entropy_class_step shist nbins i invlen invLeft invRight) 0
                     [0..entropy_nclasses obj - 1]));
          gain' = (if gain \<le> entropy_min_impurity_decrease obj then - kMax else gain)
      in \<lparr> sp_threshold = sbins i, sp_column = col, sp_gain = gain', sp_nLeft = nLeft \<rparr>)"

definition Entropy_Gain ::
  "(Split \<Rightarrow> Split \<Rightarrow> Split) \<Rightarrow> Split \<Rightarrow> int \<Rightarrow> int \<Rightarrow> real \<Rightarrow> EntropyObjectiveFunction \<Rightarrow>
   (int \<Rightarrow> int) \<Rightarrow> (int \<Rightarrow> real) \<Rightarrow> int \<Rightarrow> int \<Rightarrow> int \<Rightarrow> Split"
where
  "Entropy_Gain update sp0 threadIdx blockDim kMax obj shist sbins col len nbins =
     bin_loop update (Entropy_candidate kMax obj shist sbins col len nbins) nbins blockDim
       threadIdx sp0"

subsection \<open>Parameters, input view and builder state\<close>

text \<open>Modelled from the spec: \<open>DecisionTreeParams\<close> is declared in
  \<open>cuml/tree/decisiontree.hpp\<close>, which is not among the sources. The fields are the
  configuration options the builder reads; \<open>min_impurity_decrease\<close> is a \<open>float\<close>, the
  others are \<open>int\<close>. \<open>CRITERION\<close> is an enumeration; it is kept as its integer value, so
  that a value outside the enumeration can be written down.\<close>

type_synonym CRITERION = int

record DecisionTreeParams =
  max_depth :: int
  max_leaves :: int
  max_batch_size :: int
  n_bins :: int
  min_samples_split :: int
  min_samples_leaf :: int
  min_impurity_decrease :: real
  split_criterion :: CRITERION

text \<open>Modelled from the spec: \<open>Input\<close> is declared in \<open>input.cuh\<close>, which is not among the
  sources; the fields are those \<open>workspaceSize\<close> assigns. The matrix dimensions \<open>M\<close>
  and \<open>N\<close> are named \<open>input_M\<close> and \<open>input_N\<close>.\<close>

type_synonym ptr = "nat option"

record Input =
  data :: ptr
  labels :: ptr
  input_M :: int
  input_N :: int
  nSampledRows :: int
  nSampledCols :: int
  rowids :: ptr
  nclasses :: int
  quantiles :: ptr

text \<open>The fields of \<open>struct Builder\<close>, in the order of the source. The workspace pointers
  are byte addresses. \<open>n_blks_for_cols\<close> has the default member initialiser \<open>10\<close>, the
  constant \<open>alignValue\<close> is \<open>512\<close>.\<close>

record Builder =
  params :: DecisionTreeParams
  input :: Input
  maxNodes :: int
  nHistBins :: int
  nPredCounts :: int
  block_sync_size :: nat
  treeid :: int
  seed :: nat
  n_nodes :: nat
  hist :: nat
  done_count :: nat
  mutex :: nat
  block_sync :: nat
  n_leaves :: nat
  n_depth :: nat
  splits :: nat
  curr_nodes :: nat
  next_nodes :: nat
  h_n_nodes :: nat
  h_total_nodes :: int
  node_start :: int
  node_end :: int
  n_blks_for_cols :: int

definition alignValue :: nat where
  "alignValue = 512"

text \<open>The sizes of the types the template is instantiated with.\<close>

record type_sizes =
  sizeof_IdxT :: nat
  sizeof_BinT :: nat
  sizeof_int :: nat
  sizeof_SplitT :: nat
  sizeof_NodeT :: nat

subsection \<open>The objective that \<open>computeSplit\<close> constructs\<close>

text \<open>
  \<open>computeSplit\<close> builds the objective it hands to the kernel by
  \<^verbatim>\<open>ObjectiveT objective(input.nclasses, params.min_impurity_decrease,
                       params.min_samples_split);\<close>
  The arguments are converted to the constructor's parameter types: the \<open>IdxT\<close> class
  count to \<open>DataT\<close>, the \<open>float\<close> impurity threshold to \<open>IdxT\<close>. One definition for
  each of the two classification objectives the template is instantiated with.
\<close>

definition computeSplit_objective_Gini :: "Builder \<Rightarrow> GiniObjectiveFunction" where
  "computeSplit_objective_Gini b =
     GiniObjectiveFunction_ctor (real_of_int (nclasses (input b)))
       (trunc (min_impurity_decrease (params b))) (min_samples_split (params b))"

definition computeSplit_objective_Entropy ::
  "EntropyObjectiveFunction \<Rightarrow> Builder \<Rightarrow> EntropyObjectiveFunction" where
  "computeSplit_objective_Entropy storage b =
     EntropyObjectiveFunction_ctor storage (real_of_int (nclasses (input b)))
       (trunc (min_impurity_decrease (params b))) (min_samples_split (params b))"

subsection \<open>Workspace sizing and binding\<close>

text \<open>\<open>size_t\<close> arithmetic: conversion of a signed value, sum and product, each modulo
  \<open>2 ^ 64\<close>.\<close>

definition to_size_t :: "int \<Rightarrow> nat" where
  "to_size_t i = nat (i mod 2 ^ 64)"

definition size_t_add :: "nat \<Rightarrow> nat \<Rightarrow> nat" where
  "size_t_add a b = (a + b) mod 2 ^ 64"

definition size_t_mul :: "nat \<Rightarrow> nat \<Rightarrow> nat" where
  "size_t_mul a b = (a * b) mod 2 ^ 64"

text \<open>Modelled from the spec: \<open>raft::ceildiv\<close> and \<open>raft::alignTo\<close> come from
  \<open>raft/cuda_utils.cuh\<close>, which is not among the sources. The spec lays the workspace
  out as regions aligned to 512 bytes; \<open>alignTo\<close> rounds its first argument up to the
  next multiple of the second, as \<open>ceildiv(in, align) * align\<close> with
  \<open>ceildiv(a, b) = (a + b - 1) / b\<close>, in \<open>size_t\<close> arithmetic (\<open>1 \<le> b\<close>).\<close>

definition ceildiv :: "nat \<Rightarrow> nat \<Rightarrow> nat" where
  "ceildiv a b = ((a + b - 1) mod 2 ^ 64) div b"

definition alignTo :: "nat \<Rightarrow> nat \<Rightarrow> nat" where
  "alignTo x align = size_t_mul (ceildiv x align) align"

definition calculateAlignedBytes :: "nat \<Rightarrow> nat" where
  "calculateAlignedBytes actualSize = alignTo actualSize alignValue"

text \<open>\<open>pow(2, e) - 1\<close> converted to \<open>IdxT\<close>. \<open>pow\<close> returns a \<open>double\<close>: for
  \<open>0 \<le> e\<close> (here \<open>e \<le> 13\<close>) the value \<open>2 ^ e - 1\<close> is exact; for \<open>- 54 < e < 0\<close>
  the difference lies strictly between \<open>- 1\<close> and \<open>0\<close> and truncates to \<open>0\<close>; for
  \<open>e \<le> - 54\<close> the subtraction rounds to \<open>- 1\<close>.\<close>

definition pow2_minus_1 :: "int \<Rightarrow> int" where
  "pow2_minus_1 e = (if 0 \<le> e then 2 ^ nat e - 1 else if - 54 < e then 0 else - 1)"

datatype error = AssertionFailure string

text \<open>
  \<open>workspaceSize\<close>. The result is the outcome together with the builder as the call
  leaves it: \<open>Inr (d_wsize, h_wsize)\<close> when the call returns, \<open>Inl\<close> of the exception
  when an \<open>ASSERT\<close> fails (then the output parameters are not written, and the fields
  assigned before the failing \<open>ASSERT\<close> keep their new values). Arguments whose name is
  also a field carry a prime.
\<close>

definition workspaceSize ::
  "type_sizes \<Rightarrow> int \<Rightarrow> nat \<Rightarrow> DecisionTreeParams \<Rightarrow> ptr \<Rightarrow> ptr \<Rightarrow> int \<Rightarrow> int \<Rightarrow> int \<Rightarrow> int \<Rightarrow>
   ptr \<Rightarrow> int \<Rightarrow> ptr \<Rightarrow> Builder \<Rightarrow> (error + nat \<times> nat) \<times> Builder"
where
  "workspaceSize sz treeid' seed' p data' labels' totalRows totalCols sampledRows sampledCols
       rowids' nclasses' quantiles' b =
     (if quantiles' = None
      then (Inl (AssertionFailure
                   ''Currently quantiles need to be computed before this call!''), b)
      else
        (let b1 = b\<lparr> params := p, treeid := treeid', seed := seed',
                     n_blks_for_cols := min sampledCols (n_blks_for_cols b) \<rparr>;
             b2 = b1\<lparr> input := (input b1)\<lparr> data := data', labels := labels',
                       input_M := totalRows, input_N := totalCols,
                       nSampledRows := sampledRows, nSampledCols := sampledCols,
                       rowids := rowids', nclasses := nclasses' \<rparr> \<rparr>
         in if \<not> 1 \<le> nclasses'
            then (Inl (AssertionFailure ''nclasses should be at least 1''), b2)
            else
              (let b3 = b2\<lparr> input := (input b2)\<lparr> quantiles := quantiles' \<rparr> \<rparr>;
                   max_batch = max_batch_size (params b3);
                   n_col_blks = n_blks_for_cols b3;
                   b4 = b3\<lparr> nHistBins :=
                              max_batch * (1 + n_bins (params b3)) * n_col_blks * nclasses' \<rparr>;
                   b5 = b4\<lparr> maxNodes :=
                              (if max_depth (params b4) < 13
                               then pow2_minus_1 (max_depth (params b4) + 1)
                               else 8191) \<rparr>;
                   b6 = b5\<lparr> block_sync_size := 0 \<rparr>;
                   d0 = 0;
                   d1 = size_t_add d0 (calculateAlignedBytes (sizeof_IdxT sz));
                   d2 = size_t_add d1
                          (calculateAlignedBytes
                             (size_t_mul (sizeof_BinT sz) (to_size_t (nHistBins b6))));
                   d3 = size_t_add d2
                          (calculateAlignedBytes
                             (size_t_mul (size_t_mul (sizeof_int sz) (to_size_t max_batch))
                                (to_size_t n_col_blks)));
                   d4 = size_t_add d3
                          (calculateAlignedBytes
                             (size_t_mul (sizeof_int sz) (to_size_t max_batch)));
                   d5 = size_t_add d4 (calculateAlignedBytes (block_sync_size b6));
                   d6 = size_t_add d5 (calculateAlignedBytes (sizeof_IdxT sz));
                   d7 = size_t_add d6 (calculateAlignedBytes (sizeof_IdxT sz));
                   d8 = size_t_add d7
                          (calculateAlignedBytes
                             (size_t_mul (sizeof_SplitT sz) (to_size_t max_batch)));
                   d9 = size_t_add d8
                          (calculateAlignedBytes
                             (size_t_mul (sizeof_NodeT sz) (to_size_t max_batch)));
                   d10 = size_t_add d9
                           (calculateAlignedBytes
                              (size_t_mul (size_t_mul (sizeof_NodeT sz) 2)
                                 (to_size_t max_batch)));
                   h_wsize = calculateAlignedBytes (sizeof_IdxT sz)
               in (Inr (d10, h_wsize), b6))))"

text \<open>\<open>assignWorkspace\<close>: \<open>d_wspace\<close> and \<open>h_wspace\<close> are the addresses of the two
  buffers; every \<open>d_wspace += ...\<close> is the next line of the \<open>let\<close>.\<close>

definition assignWorkspace :: "type_sizes \<Rightarrow> nat \<Rightarrow> nat \<Rightarrow> Builder \<Rightarrow> Builder" where
  "assignWorkspace sz d_wspace h_wspace b =
     (let max_batch = max_batch_size (params b);
          n_col_blks = n_blks_for_cols b;
          w0 = d_wspace;
          w1 = w0 + calculateAlignedBytes (sizeof_IdxT sz);
          w2 = w1 + calculateAlignedBytes
                      (size_t_mul (sizeof_BinT sz) (to_size_t (nHistBins b)));
          w3 = w2 + calculateAlignedBytes
                      (size_t_mul (size_t_mul (sizeof_int sz) (to_size_t max_batch))
                         (to_size_t n_col_blks));
          w4 = w3 + calculateAlignedBytes (size_t_mul (sizeof_int sz) (to_size_t max_batch));
          w5 = w4 + calculateAlignedBytes (block_sync_size b);
          w6 = w5 + calculateAlignedBytes (sizeof_IdxT sz);
          w7 = w6 + calculateAlignedBytes (sizeof_IdxT sz);
          w8 = w7 + calculateAlignedBytes
                      (size_t_mul (sizeof_SplitT sz) (to_size_t max_batch));
          w9 = w8 + calculateAlignedBytes
                      (size_t_mul (sizeof_NodeT sz) (to_size_t max_batch))
      in b\<lparr> n_nodes := w0, hist := w1, done_count := w2, mutex := w3, block_sync := w4,
            n_leaves := w5, n_depth := w6, splits := w7, curr_nodes := w8,
            next_nodes := w9, h_n_nodes := h_wspace \<rparr>)"

subsection \<open>Nodes, device memory and the training loop\<close>

text \<open>Modelled from the spec: \<open>Node\<close> is declared in \<open>node.cuh\<close>, which is not among the
  sources. The record has the fields the spec lists; \<open>initSpNode\<close> sets
  \<open>is_leaf = false\<close>, \<open>split_feature = -1\<close> and \<open>left_child_id = -1\<close>. \<open>Node_zero\<close>
  is the value-initialised node that \<open>std::vector::resize\<close> puts into new entries.\<close>

record Node =
  start :: int
  count :: int
  depth :: int
  prediction :: real
  split_feature :: int
  split_threshold :: real
  left_child_id :: int
  is_leaf :: bool
  unique_id :: int

definition initSpNode :: "Node \<Rightarrow> Node" where
  "initSpNode n = n\<lparr> is_leaf := False, split_feature := - 1, left_child_id := - 1 \<rparr>"

definition Node_zero :: Node where
  "Node_zero = \<lparr> start = 0, count = 0, depth = 0, prediction = 0, split_feature = 0,
                 split_threshold = 0, left_child_id = 0, is_leaf = False, unique_id = 0 \<rparr>"

text \<open>
  The device memory the host code copies from and to: the counters behind \<open>n_nodes\<close>,
  \<open>n_leaves\<close> and \<open>n_depth\<close>, and the two node buffers. The buffers \<open>hist\<close>,
  \<open>done_count\<close>, \<open>mutex\<close>, \<open>block_sync\<close> and \<open>splits\<close> are written by the host only
  through \<open>cudaMemsetAsync\<close> and \<open>initSplit\<close> and read only by the kernels; they carry
  nothing from one \<open>doSplit\<close> to the next and are left to the kernels.
\<close>

record device =
  d_n_nodes :: int
  d_n_leaves :: int
  d_n_depth :: int
  d_curr_nodes :: "Node list"
  d_next_nodes :: "Node list"

text \<open>What \<open>train\<close> works on: the builder, the caller's vector \<open>h_nodes\<close>, the \<open>IdxT\<close>
  that \<open>h_n_nodes\<close> points to in the host workspace, and the device memory.\<close>

record train_state =
  builder :: Builder
  h_nodes :: "Node list"
  h_n_nodes_value :: int
  dev :: device

text \<open>\<open>std::vector::resize\<close> with value-initialised new entries.\<close>

definition resize :: "'a \<Rightarrow> nat \<Rightarrow> 'a list \<Rightarrow> 'a list" where
  "resize zero n xs = take n xs @ replicate (n - length xs) zero"

text \<open>\<open>raft::update_host\<close> and \<open>raft::update_device\<close> copy \<open>len\<close> elements from
  \<open>src + soff\<close> to \<open>dst + doff\<close>. Both ranges lie inside their buffers in every defined
  execution; the model leaves an entry outside \<open>dst\<close> unwritten.\<close>

definition copy_elems :: "'a list \<Rightarrow> nat \<Rightarrow> 'a list \<Rightarrow> nat \<Rightarrow> nat \<Rightarrow> 'a list" where
  "copy_elems dst doff src soff len =
     fold (\<lambda>k d. d[doff + k := src ! (soff + k)]) [0..<len] dst"

text \<open>
  The kernels (\<open>initSplit\<close>, \<open>computeSplitKernel\<close>, \<open>nodeSplitKernel\<close>) are declared in
  \<open>kernels.cuh\<close>, which is not among the sources. A value of type \<open>kernels\<close> is their
  joint effect on the device memory in one \<open>doSplit\<close>: from the builder (parameters, input
  view, \<open>h_total_nodes\<close>) and the device memory with the batch in \<open>curr_nodes\<close> and
  \<open>n_nodes\<close> reset, to the device memory with the updated batch, the new children in
  \<open>next_nodes\<close> and their number in \<open>n_nodes\<close>.
\<close>

type_synonym kernels = "Builder \<Rightarrow> device \<Rightarrow> device"

definition init :: "train_state \<Rightarrow> train_state" where
  "init s =
     (let s1 = s\<lparr> h_n_nodes_value := 0 \<rparr>;
          s2 = s1\<lparr> dev := (dev s1)\<lparr> d_n_leaves := 0, d_n_depth := 0 \<rparr> \<rparr>;
          s3 = s2\<lparr> builder := (builder s2)\<lparr> node_start := 0 \<rparr> \<rparr>;
          s4 = s3\<lparr> builder := (builder s3)\<lparr> h_total_nodes := 1, node_end := 1 \<rparr> \<rparr>;
          hs = resize Node_zero 1 (h_nodes s4);
          root = (initSpNode (hs ! 0))\<lparr> start := 0,
                    count := nSampledRows (input (builder s4)), depth := 0, unique_id := 0 \<rparr>
      in s4\<lparr> h_nodes := hs[0 := root] \<rparr>)"

definition isOver :: "Builder \<Rightarrow> bool" where
  "isOver b = (node_end b = h_total_nodes b)"

definition updateNodeRange :: "Builder \<Rightarrow> Builder" where
  "updateNodeRange b =
     (let b1 = b\<lparr> node_start := node_end b \<rparr>;
          nodes_remaining = h_total_nodes b1 - node_end b1
      in b1\<lparr> node_end := min nodes_remaining (max_batch_size (params b1)) + node_end b1 \<rparr>)"

text \<open>\<open>doSplit\<close>: returns the state and the number of newly created nodes.\<close>

definition doSplit :: "kernels \<Rightarrow> train_state \<Rightarrow> train_state \<times> int" where
  "doSplit K s =
     (let b = builder s;
          batchSize = node_end b - node_start b;
          dv1 = (dev s)\<lparr> d_n_nodes := 0 \<rparr>;
          dv2 = dv1\<lparr> d_curr_nodes :=
                       copy_elems (d_curr_nodes dv1) 0 (h_nodes s) (nat (node_start b))
                         (nat batchSize) \<rparr>;
          dv3 = K b dv2;
          n = d_n_nodes dv3;
          hs1 = resize Node_zero
                  (size_t_add (size_t_add (length (h_nodes s)) (to_size_t batchSize))
                     (to_size_t n))
                  (h_nodes s);
          hs2 = copy_elems hs1 (nat (node_start b)) (d_curr_nodes dv3) 0 (nat batchSize);
          hs3 = copy_elems hs2 (nat (h_total_nodes b)) (d_next_nodes dv3) 0 (nat n)
      in (s\<lparr> dev := dv3, h_n_nodes_value := n, h_nodes := hs3 \<rparr>, n))"

text \<open>One pass of the \<open>while (true)\<close> loop of \<open>train\<close>: \<open>Inl\<close> is the \<open>break\<close>,
  \<open>Inr\<close> the state the next pass starts from.\<close>

definition train_step :: "kernels \<Rightarrow> train_state \<Rightarrow> train_state + train_state" where
  "train_step K s =
     (let (s1, new_nodes) = doSplit K s;
          s2 = s1\<lparr> builder :=
                     (builder s1)\<lparr> h_total_nodes := h_total_nodes (builder s1) + new_nodes \<rparr> \<rparr>
      in if new_nodes = 0 \<and> isOver (builder s2) then Inl s2
         else Inr (s2\<lparr> builder := updateNodeRange (builder s2) \<rparr>))"

text \<open>The loop may run forever if the kernels keep creating nodes, so it takes fuel:
  \<open>None\<close> is a loop that has not left after \<open>fuel\<close> passes.\<close>

fun train_loop :: "nat \<Rightarrow> kernels \<Rightarrow> train_state \<Rightarrow> train_state option" where
  "train_loop 0 K s = None"
| "train_loop (Suc fuel) K s =
     (case train_step K s of Inl s' \<Rightarrow> Some s' | Inr s' \<Rightarrow> train_loop fuel K s')"

text \<open>\<open>train\<close>: the final state together with the outputs \<open>num_leaves\<close> and \<open>depth\<close>.\<close>

definition train :: "nat \<Rightarrow> kernels \<Rightarrow> train_state \<Rightarrow> (train_state \<times> int \<times> int) option" where
  "train fuel K s =
     (case train_loop fuel K (init s) of
        None \<Rightarrow> None
      | Some s' \<Rightarrow> Some (s', d_n_leaves (dev s'), d_n_depth (dev s')))"

text \<open>The state at the head of the loop when pass number \<open>k\<close> begins (counting from
  \<open>0\<close>); \<open>None\<close> when the loop has been left before.\<close>

fun loop_head :: "nat \<Rightarrow> kernels \<Rightarrow> train_state \<Rightarrow> train_state option" where
  "loop_head 0 K s = Some (init s)"
| "loop_head (Suc k) K s =
     (case loop_head k K s of
        None \<Rightarrow> None
      | Some t \<Rightarrow> (case train_step K t of Inl t' \<Rightarrow> None | Inr t' \<Rightarrow> Some t'))"

subsection \<open>The workspace layout in the words of the specification\<close>

text \<open>The specification's side of the layout claims, in unbounded arithmetic: a size
  rounded up to the next multiple of 512, the byte extents of the ten device regions
  (\<open>n_nodes\<close>, \<open>hist\<close>, \<open>done_count\<close>, \<open>mutex\<close>, \<open>block_sync\<close>, \<open>n_leaves\<close>,
  \<open>n_depth\<close>, \<open>splits\<close>, \<open>curr_nodes\<close>, \<open>next_nodes\<close>), the sum of their aligned
  sizes, and the running sums at which the regions start.\<close>

definition aligned512 :: "nat \<Rightarrow> nat" where
  "aligned512 n = (n + 511) div 512 * 512"

definition region_bytes :: "type_sizes \<Rightarrow> int \<Rightarrow> int \<Rightarrow> int \<Rightarrow> nat \<Rightarrow> nat list" where
  "region_bytes sz max_batch nHist n_col_blks bsync =
     [sizeof_IdxT sz,
      sizeof_BinT sz * nat nHist,
      sizeof_int sz * nat max_batch * nat n_col_blks,
      sizeof_int sz * nat max_batch,
      bsync,
      sizeof_IdxT sz,
      sizeof_IdxT sz,
      sizeof_SplitT sz * nat max_batch,
      sizeof_NodeT sz * nat max_batch,
      sizeof_NodeT sz * 2 * nat max_batch]"

definition device_bytes :: "nat list \<Rightarrow> nat" where
  "device_bytes rs = sum_list (map aligned512 rs)"

definition region_offsets :: "nat list \<Rightarrow> nat list" where
  "region_offsets rs = map (\<lambda>k. device_bytes (take k rs)) [0..<length rs]"

text \<open>The addresses \<open>assignWorkspace\<close> binds, in the same order.\<close>

definition region_starts :: "Builder \<Rightarrow> nat list" where
  "region_starts b = [n_nodes b, hist b, done_count b, mutex b, block_sync b, n_leaves b,
     n_depth b, splits b, curr_nodes b, next_nodes b]"

text \<open>
  Every size of the computation fits its type: the batch size, the number of column
  blocks and the class count are positive and the bin count is not negative (so every
  factor converts to \<open>size_t\<close> unchanged and every partial product of \<open>nHistBins\<close> is at
  most the whole), \<open>nHistBins\<close> fits a 32-bit \<open>IdxT\<close>, and the device byte count is below
  \<open>2 ^ 64\<close>.
\<close>

definition sizes_representable :: "type_sizes \<Rightarrow> DecisionTreeParams \<Rightarrow> int \<Rightarrow> int \<Rightarrow> bool" where
  "sizes_representable sz p n_col_blks ncls =
     (1 \<le> max_batch_size p \<and> 0 \<le> n_bins p \<and> 1 \<le> n_col_blks \<and> 1 \<le> ncls \<and>
      max_batch_size p * (1 + n_bins p) * n_col_blks * ncls < 2 ^ 31 \<and>
      device_bytes (region_bytes sz (max_batch_size p)
         (max_batch_size p * (1 + n_bins p) * n_col_blks * ncls) n_col_blks 0) < 2 ^ 64)"

subsection \<open>Example inputs\<close>

text \<open>A small configuration: 4-byte \<open>IdxT\<close>, \<open>BinT\<close> and \<open>int\<close>, a 16-byte split and a
  48-byte node; depth 2, batches of two nodes, two bins. \<open>example_Builder\<close> is a builder
  on which \<open>workspaceSize\<close> has not run yet: \<open>n_blks_for_cols\<close> is its initialiser
  \<open>10\<close>, the other fields hold zeros. \<open>example_workspaceSize\<close> is the call for a
  dataset of four rows and one column.\<close>

definition example_sizes :: type_sizes where
  "example_sizes = \<lparr> sizeof_IdxT = 4, sizeof_BinT = 4, sizeof_int = 4, sizeof_SplitT = 16,
                      sizeof_NodeT = 48 \<rparr>"

definition example_params :: DecisionTreeParams where
  "example_params = \<lparr> max_depth = 2, max_leaves = - 1, max_batch_size = 2, n_bins = 2,
      min_samples_split = 2, min_samples_leaf = 1, min_impurity_decrease = 0,
      split_criterion = 0 \<rparr>"

definition example_Input :: Input where
  "example_Input = \<lparr> data = None, labels = None, input_M = 0, input_N = 0, nSampledRows = 0,
      nSampledCols = 0, rowids = None, nclasses = 0, quantiles = None \<rparr>"

definition example_Builder :: Builder where
  "example_Builder = \<lparr> params = \<lparr> max_depth = 0, max_leaves = 0, max_batch_size = 0,
        n_bins = 0, min_samples_split = 0, min_samples_leaf = 0, min_impurity_decrease = 0,
        split_criterion = 0 \<rparr>,
      input = example_Input,
      maxNodes = 0, nHistBins = 0, nPredCounts = 0, block_sync_size = 0, treeid = 0, seed = 0,
      n_nodes = 0, hist = 0, done_count = 0, mutex = 0, block_sync = 0, n_leaves = 0,
      n_depth = 0, splits = 0, curr_nodes = 0, next_nodes = 0, h_n_nodes = 0,
      h_total_nodes = 0, node_start = 0, node_end = 0, n_blks_for_cols = 10 \<rparr>"

definition example_workspaceSize ::
  "DecisionTreeParams \<Rightarrow> int \<Rightarrow> ptr \<Rightarrow> (error + nat \<times> nat) \<times> Builder" where
  "example_workspaceSize p ncls q =
     workspaceSize example_sizes 0 0 p (Some 4096) (Some 8192) 4 1 4 1 (Some 12288) ncls q
       example_Builder"

text \<open>The builder as that call leaves it.\<close>

definition example_sized_Builder :: Builder where
  "example_sized_Builder = snd (example_workspaceSize example_params 2 (Some 16384))"

text \<open>
  The histogram of the specification's pure-split scenario: four samples with the labels
  \<open>[0, 0, 1, 1]\<close>, one column, two bins with the edges \<open>0.5\<close> and \<open>1.0\<close>. In the
  layout \<open>shist[2 * nbins * class + nbins * side + bin]\<close> the counts are: class 0 left
  \<open>[2, 2]\<close>, right \<open>[0, 0]\<close>; class 1 left \<open>[0, 2]\<close>, right \<open>[2, 0]\<close>.
\<close>

definition pure_split_shist :: "int \<Rightarrow> int" where
  "pure_split_shist k = (if 0 \<le> k \<and> k < 8 then [2, 2, 0, 0, 0, 2, 2, 0] ! nat k else 0)"

definition pure_split_sbins :: "int \<Rightarrow> real" where
  "pure_split_sbins i = (if i = 0 then 1 / 2 else 1)"

text \<open>Two parameter sets of a caller, and the builders \<open>workspaceSize\<close> leaves for them:
  one asks for three samples in every leaf (with the default \<open>min_samples_split = 2\<close>),
  the other for an impurity decrease above one half.\<close>

definition strict_leaf_params :: DecisionTreeParams where
  "strict_leaf_params = example_params\<lparr> min_samples_leaf := 3 \<rparr>"

definition strict_leaf_Builder :: Builder where
  "strict_leaf_Builder = snd (example_workspaceSize strict_leaf_params 2 (Some 16384))"

definition fractional_params :: DecisionTreeParams where
  "fractional_params = example_params\<lparr> min_impurity_decrease := 1 / 2 \<rparr>"

definition fractional_Builder :: Builder where
  "fractional_Builder = snd (example_workspaceSize fractional_params 2 (Some 16384))"

text \<open>Object storage that holds zeros before the constructor runs.\<close>

definition zero_storage :: EntropyObjectiveFunction where
  "zero_storage = \<lparr> entropy_nclasses = 0, entropy_min_impurity_decrease = 0,
                     entropy_min_samples_leaf = 0 \<rparr>"

text \<open>
  A run of the kernels on the four-row dataset: in the first batch the root is split into
  two children of two rows each, in the second batch both children become leaves. The
  device buffers hold \<open>max_batch_size = 2\<close> and \<open>2 * max_batch_size = 4\<close> nodes.
  \<open>example_state_2\<close> and \<open>example_state_3\<close> are the states after the first and the
  second pass of the loop.
\<close>

definition example_child :: "int \<Rightarrow> int \<Rightarrow> Node" where
  "example_child first uid =
     Node_zero\<lparr> start := first, count := 2, depth := 1, split_feature := - 1,
                left_child_id := - 1, unique_id := uid \<rparr>"

definition example_kernels :: kernels where
  "example_kernels b d =
     (if h_total_nodes b = 1
      then d\<lparr> d_n_nodes := d_n_nodes d + 2, d_n_depth := 1,
              d_curr_nodes := (d_curr_nodes d)[0 := (d_curr_nodes d ! 0)\<lparr> split_feature := 0,
                  split_threshold := 1 / 2, left_child_id := 1 \<rparr>],
              d_next_nodes := (d_next_nodes d)[0 := example_child 0 1, 1 := example_child 2 2] \<rparr>
      else d\<lparr> d_n_leaves := d_n_leaves d + (node_end b - node_start b),
              d_curr_nodes := map (\<lambda>n. n\<lparr> is_leaf := True \<rparr>) (d_curr_nodes d) \<rparr>)"

definition example_device :: device where
  "example_device = \<lparr> d_n_nodes = 0, d_n_leaves = 0, d_n_depth = 0,
      d_curr_nodes = replicate 2 Node_zero, d_next_nodes = replicate 4 Node_zero \<rparr>"

definition example_train_state :: train_state where
  "example_train_state =
     \<lparr> builder = assignWorkspace example_sizes 4096 0 example_sized_Builder,
       h_nodes = [], h_n_nodes_value = 0, dev = example_device \<rparr>"

definition example_root :: Node where
  "example_root = Node_zero\<lparr> count := 4, split_feature := 0, split_threshold := 1 / 2,
                     left_child_id := 1 \<rparr>"

definition example_state_2 :: train_state where
  "example_state_2 =
     example_train_state\<lparr>
       builder := (builder example_train_state)\<lparr> node_start := 1, h_total_nodes := 3,
                     node_end := 3 \<rparr>,
       dev := example_device\<lparr> d_n_nodes := 2, d_n_depth := 1,
                d_curr_nodes := [example_root, Node_zero],
                d_next_nodes := [example_child 0 1, example_child 2 2, Node_zero, Node_zero] \<rparr>,
       h_n_nodes_value := 2,
       h_nodes := [example_root, example_child 0 1, example_child 2 2, Node_zero] \<rparr>"

definition example_final_nodes :: "Node list" where
  "example_final_nodes =
     [example_root, (example_child 0 1)\<lparr> is_leaf := True \<rparr>,
      (example_child 2 2)\<lparr> is_leaf := True \<rparr>, Node_zero, Node_zero, Node_zero]"

definition example_state_3 :: train_state where
  "example_state_3 =
     example_state_2\<lparr>
       dev := (dev example_state_2)\<lparr> d_n_nodes := 0, d_n_leaves := 2,
                d_curr_nodes := [(example_child 0 1)\<lparr> is_leaf := True \<rparr>,
                                 (example_child 2 2)\<lparr> is_leaf := True \<rparr>] \<rparr>,
       h_n_nodes_value := 0,
       h_nodes := example_final_nodes \<rparr>"

subsection \<open>The frontier invariant\<close>

text \<open>The range \<open>[node_start, node_end)\<close> lies inside the nodes created so far and holds
  at most \<open>max_batch_size\<close> nodes.\<close>

definition frontier_ok :: "Builder \<Rightarrow> bool" where
  "frontier_ok b = (node_start b \<le> node_end b \<and> node_end b \<le> h_total_nodes b \<and>
     node_end b - node_start b \<le> max_batch_size (params b))"

section \<open>Properties\<close>

subsection \<open>Size arithmetic\<close>

lemma aligned512_ge: "n \<le> aligned512 n"
  unfolding aligned512_def by linarith

lemma aligned512_dvd: "512 dvd aligned512 n"
  unfolding aligned512_def by simp

lemma calculateAlignedBytes_eq:
  assumes "aligned512 n < 2 ^ 64"
  shows "calculateAlignedBytes n = aligned512 n"
proof -
  have "(n + 511) div 512 * 512 < 18446744073709551616"
    using assms by (simp add: aligned512_def)
  then have "(n + 511) div 512 < 36028797018963968" by linarith
  then have lt: "n + 511 < 18446744073709551616" by linarith
  have "ceildiv n 512 = (n + 511) div 512"
    using lt by (simp add: ceildiv_def)
  then show ?thesis
    using assms
    by (simp add: calculateAlignedBytes_def alignTo_def size_t_mul_def
        alignValue_def aligned512_def)
qed

lemma size_t_mul_to_size_t:
  assumes "0 \<le> i" and "a * nat i < 2 ^ 64"
  shows "size_t_mul a (to_size_t i) = a * nat i"
proof -
  have "to_size_t i = nat i mod 2 ^ 64"
    using assms(1) by (simp add: to_size_t_def nat_mod_distrib)
  then have "size_t_mul a (to_size_t i) = (a * nat i) mod 2 ^ 64"
    by (simp add: size_t_mul_def mod_mult_right_eq)
  then show ?thesis using assms(2) by simp
qed

lemma size_t_add_small: "a + b < 2 ^ 64 \<Longrightarrow> size_t_add a b = a + b"
  by (simp add: size_t_add_def)

lemma region_facts:
  assumes rep: "sizes_representable sz p c ncls"
  defines "mb \<equiv> max_batch_size p"
  defines "nH \<equiv> max_batch_size p * (1 + n_bins p) * c * ncls"
  shows "calculateAlignedBytes (sizeof_IdxT sz) = aligned512 (sizeof_IdxT sz)"
    and "calculateAlignedBytes (size_t_mul (sizeof_BinT sz) (to_size_t nH)) = aligned512 (sizeof_BinT sz * nat nH)"
    and "calculateAlignedBytes (size_t_mul (size_t_mul (sizeof_int sz) (to_size_t mb)) (to_size_t c))
         = aligned512 (sizeof_int sz * nat mb * nat c)"
    and "calculateAlignedBytes (size_t_mul (sizeof_int sz) (to_size_t mb)) = aligned512 (sizeof_int sz * nat mb)"
    and "calculateAlignedBytes 0 = aligned512 0"
    and "calculateAlignedBytes (size_t_mul (sizeof_SplitT sz) (to_size_t mb)) = aligned512 (sizeof_SplitT sz * nat mb)"
    and "calculateAlignedBytes (size_t_mul (sizeof_NodeT sz) (to_size_t mb)) = aligned512 (sizeof_NodeT sz * nat mb)"
    and "calculateAlignedBytes (size_t_mul (size_t_mul (sizeof_NodeT sz) 2) (to_size_t mb)) = aligned512 (sizeof_NodeT sz * 2 * nat mb)"
    and "aligned512 (sizeof_IdxT sz) + aligned512 (sizeof_BinT sz * nat nH)
         + aligned512 (sizeof_int sz * nat mb * nat c) + aligned512 (sizeof_int sz * nat mb)
         + aligned512 0 + aligned512 (sizeof_IdxT sz) + aligned512 (sizeof_IdxT sz)
         + aligned512 (sizeof_SplitT sz * nat mb) + aligned512 (sizeof_NodeT sz * nat mb)
         + aligned512 (sizeof_NodeT sz * 2 * nat mb) < 2 ^ 64"
proof -
  have mb1: "1 \<le> mb" and c1: "1 \<le> c" and n1: "1 \<le> ncls" and nb: "0 \<le> n_bins p"
    using rep by (simp_all add: sizes_representable_def mb_def)
  have nH0: "0 \<le> nH" using mb1 c1 n1 nb by (simp add: nH_def mb_def)
  show tot: "aligned512 (sizeof_IdxT sz) + aligned512 (sizeof_BinT sz * nat nH)
         + aligned512 (sizeof_int sz * nat mb * nat c) + aligned512 (sizeof_int sz * nat mb)
         + aligned512 0 + aligned512 (sizeof_IdxT sz) + aligned512 (sizeof_IdxT sz)
         + aligned512 (sizeof_SplitT sz * nat mb) + aligned512 (sizeof_NodeT sz * nat mb)
         + aligned512 (sizeof_NodeT sz * 2 * nat mb) < 2 ^ 64"
    using rep by (simp add: sizes_representable_def device_bytes_def region_bytes_def mb_def nH_def)
  note ge = aligned512_ge
  show "calculateAlignedBytes (sizeof_IdxT sz) = aligned512 (sizeof_IdxT sz)"
    using tot by (intro calculateAlignedBytes_eq) linarith
  have a2: "aligned512 (sizeof_BinT sz * nat nH) < 2 ^ 64" using tot by linarith
  show "calculateAlignedBytes (size_t_mul (sizeof_BinT sz) (to_size_t nH)) = aligned512 (sizeof_BinT sz * nat nH)"
    using a2 ge[of "sizeof_BinT sz * nat nH"] nH0
    by (simp add: size_t_mul_to_size_t calculateAlignedBytes_eq)
  have a4: "aligned512 (sizeof_int sz * nat mb) < 2 ^ 64" using tot by linarith
  have m4: "size_t_mul (sizeof_int sz) (to_size_t mb) = sizeof_int sz * nat mb"
    using a4 ge[of "sizeof_int sz * nat mb"] mb1 by (simp add: size_t_mul_to_size_t)
  show "calculateAlignedBytes (size_t_mul (sizeof_int sz) (to_size_t mb)) = aligned512 (sizeof_int sz * nat mb)"
    using a4 m4 by (simp add: calculateAlignedBytes_eq)
  have a3: "aligned512 (sizeof_int sz * nat mb * nat c) < 2 ^ 64" using tot by linarith
  show "calculateAlignedBytes (size_t_mul (size_t_mul (sizeof_int sz) (to_size_t mb)) (to_size_t c))
         = aligned512 (sizeof_int sz * nat mb * nat c)"
    using a3 ge[of "sizeof_int sz * nat mb * nat c"] c1 m4
    by (simp add: size_t_mul_to_size_t calculateAlignedBytes_eq)
  show "calculateAlignedBytes 0 = aligned512 0"
    by (simp add: calculateAlignedBytes_eq aligned512_def)
  have a8: "aligned512 (sizeof_SplitT sz * nat mb) < 2 ^ 64" using tot by linarith
  show "calculateAlignedBytes (size_t_mul (sizeof_SplitT sz) (to_size_t mb)) = aligned512 (sizeof_SplitT sz * nat mb)"
    using a8 ge[of "sizeof_SplitT sz * nat mb"] mb1
    by (simp add: size_t_mul_to_size_t calculateAlignedBytes_eq)
  have a9: "aligned512 (sizeof_NodeT sz * nat mb) < 2 ^ 64" using tot by linarith
  show "calculateAlignedBytes (size_t_mul (sizeof_NodeT sz) (to_size_t mb)) = aligned512 (sizeof_NodeT sz * nat mb)"
    using a9 ge[of "sizeof_NodeT sz * nat mb"] mb1
    by (simp add: size_t_mul_to_size_t calculateAlignedBytes_eq)
  have a10: "aligned512 (sizeof_NodeT sz * 2 * nat mb) < 2 ^ 64" using tot by linarith
  have "1 \<le> nat mb" using mb1 by linarith
  then have "sizeof_NodeT sz * 2 \<le> sizeof_NodeT sz * 2 * nat mb"
    by simp
  then have "sizeof_NodeT sz * 2 < 2 ^ 64"
    using a10 ge[of "sizeof_NodeT sz * 2 * nat mb"] by linarith
  then have m10: "size_t_mul (sizeof_NodeT sz) 2 = sizeof_NodeT sz * 2"
    by (simp add: size_t_mul_def)
  show "calculateAlignedBytes (size_t_mul (size_t_mul (sizeof_NodeT sz) 2) (to_size_t mb)) = aligned512 (sizeof_NodeT sz * 2 * nat mb)"
  proof -
    have "sizeof_NodeT sz * 2 * nat mb < 2 ^ 64"
      using a10 ge[of "sizeof_NodeT sz * 2 * nat mb"] by linarith
    then have "size_t_mul (sizeof_NodeT sz * 2) (to_size_t mb) = sizeof_NodeT sz * 2 * nat mb"
      using mb1 by (intro size_t_mul_to_size_t) linarith+
    then show ?thesis
      using a10 m10 by (simp only: calculateAlignedBytes_eq)
  qed
qed


lemma size_t_add_mod:
  "size_t_add (x mod 18446744073709551616) y = (x + y) mod 18446744073709551616"
  by (simp add: size_t_add_def mod_add_left_eq)

lemma size_t_add_0: "size_t_add 0 y = y mod 18446744073709551616"
  by (simp add: size_t_add_def)

lemma workspaceSize_Inr:
  assumes q: "q \<noteq> None" and rep: "sizes_representable sz p (min sampledCols (n_blks_for_cols b)) ncls"
  shows "fst (workspaceSize sz tid sd p dat lab totalRows totalCols sampledRows sampledCols rid ncls q b)
         = Inr (device_bytes (region_bytes sz (max_batch_size p)
                   (max_batch_size p * (1 + n_bins p) * min sampledCols (n_blks_for_cols b) * ncls)
                   (min sampledCols (n_blks_for_cols b)) 0),
                aligned512 (sizeof_IdxT sz))"
proof -
  note rf = region_facts[OF rep]
  have n1: "1 \<le> ncls" using rep by (simp add: sizes_representable_def)
  obtain y where y: "q = Some y" using q by auto
  have "fst (workspaceSize sz tid sd p dat lab totalRows totalCols sampledRows sampledCols rid ncls q b)
         = Inr (device_bytes (region_bytes sz (max_batch_size p)
                   (max_batch_size p * (1 + n_bins p) * min sampledCols (n_blks_for_cols b) * ncls)
                   (min sampledCols (n_blks_for_cols b)) 0) mod 2 ^ 64,
                aligned512 (sizeof_IdxT sz))"
    using n1 unfolding y
    by (simp add: workspaceSize_def Let_def rf(1-8) size_t_add_0 size_t_add_mod
        device_bytes_def region_bytes_def add.assoc del: One_nat_def)
  moreover have "device_bytes (region_bytes sz (max_batch_size p)
                   (max_batch_size p * (1 + n_bins p) * min sampledCols (n_blks_for_cols b) * ncls)
                   (min sampledCols (n_blks_for_cols b)) 0) < 2 ^ 64"
    using rep by (simp add: sizes_representable_def)
  ultimately show ?thesis by simp
qed

lemma workspaceSize_fields:
  fixes sz tid sd p dat lab totalRows totalCols sampledRows sampledCols rid ncls q b
  defines "b' \<equiv> snd (workspaceSize sz tid sd p dat lab totalRows totalCols sampledRows sampledCols rid ncls q b)"
  assumes "q \<noteq> None" and "1 \<le> ncls"
  shows "params b' = p"
    and "n_blks_for_cols b' = min sampledCols (n_blks_for_cols b)"
    and "nHistBins b' = max_batch_size p * (1 + n_bins p) * min sampledCols (n_blks_for_cols b) * ncls"
    and "maxNodes b' = (if max_depth p < 13 then pow2_minus_1 (max_depth p + 1) else 8191)"
    and "block_sync_size b' = 0"
  using assms(2,3) unfolding b'_def
  by (auto simp: workspaceSize_def Let_def)

lemma workspaceSize_isl:
  "isl (fst (workspaceSize sz tid sd p dat lab totalRows totalCols sampledRows sampledCols rid ncls q b))
   \<longleftrightarrow> (q = None \<or> ncls < 1)"
  by (simp add: workspaceSize_def Let_def)

lemma device_bytes_take_Suc:
  "k < length rs \<Longrightarrow> device_bytes (take (Suc k) rs) = device_bytes (take k rs) + aligned512 (rs ! k)"
  by (simp add: device_bytes_def take_Suc_conv_app_nth)

lemma device_bytes_take_mono:
  "j \<le> k \<Longrightarrow> device_bytes (take j rs) \<le> device_bytes (take k rs)"
proof (induction k)
  case 0
  then show ?case by simp
next
  case (Suc k)
  show ?case
  proof (cases "j = Suc k")
    case True
    then show ?thesis by simp
  next
    case False
    with Suc have le: "device_bytes (take j rs) \<le> device_bytes (take k rs)" by simp
    show ?thesis
    proof (cases "k < length rs")
      case True
      then show ?thesis using le by (simp add: device_bytes_take_Suc)
    next
      case False
      then show ?thesis using le by simp
    qed
  qed
qed

lemma device_bytes_dvd: "512 dvd device_bytes rs"
  unfolding device_bytes_def by (induction rs) (simp_all add: aligned512_dvd)

lemma region_offsets_nth: "k < length rs \<Longrightarrow> region_offsets rs ! k = device_bytes (take k rs)"
  by (simp add: region_offsets_def)

lemma region_offsets_disjoint:
  assumes "j < k" and "k < length rs"
  shows "region_offsets rs ! j + rs ! j \<le> region_offsets rs ! k"
proof -
  have "region_offsets rs ! j + rs ! j \<le> device_bytes (take j rs) + aligned512 (rs ! j)"
    using assms by (simp add: region_offsets_nth aligned512_ge)
  also have "\<dots> = device_bytes (take (Suc j) rs)"
    using assms by (simp add: device_bytes_take_Suc)
  also have "\<dots> \<le> device_bytes (take k rs)"
    using assms by (intro device_bytes_take_mono) simp
  finally show ?thesis using assms by (simp add: region_offsets_nth)
qed

lemma region_offsets_end:
  assumes "k < length rs"
  shows "region_offsets rs ! k + rs ! k \<le> device_bytes rs"
proof -
  have "region_offsets rs ! k + rs ! k \<le> device_bytes (take (Suc k) rs)"
    using assms by (simp add: region_offsets_nth aligned512_ge device_bytes_take_Suc)
  also have "\<dots> \<le> device_bytes (take (length rs) rs)"
    using assms by (intro device_bytes_take_mono) simp
  finally show ?thesis by simp
qed

lemma region_offsets_10:
  "region_offsets [r0, r1, r2, r3, r4, r5, r6, r7, r8, r9] =
    [0, aligned512 r0, aligned512 r0 + aligned512 r1,
     aligned512 r0 + aligned512 r1 + aligned512 r2,
     aligned512 r0 + aligned512 r1 + aligned512 r2 + aligned512 r3,
     aligned512 r0 + aligned512 r1 + aligned512 r2 + aligned512 r3 + aligned512 r4,
     aligned512 r0 + aligned512 r1 + aligned512 r2 + aligned512 r3 + aligned512 r4 + aligned512 r5,
     aligned512 r0 + aligned512 r1 + aligned512 r2 + aligned512 r3 + aligned512 r4 + aligned512 r5 + aligned512 r6,
     aligned512 r0 + aligned512 r1 + aligned512 r2 + aligned512 r3 + aligned512 r4 + aligned512 r5 + aligned512 r6 + aligned512 r7,
     aligned512 r0 + aligned512 r1 + aligned512 r2 + aligned512 r3 + aligned512 r4 + aligned512 r5 + aligned512 r6 + aligned512 r7 + aligned512 r8]"
  by (simp add: region_offsets_def device_bytes_def upt_rec[of 0] upt_rec[of "Suc _"] numeral_eq_Suc)

lemma example_fresh: "n_blks_for_cols example_Builder = 10"
  by (simp add: example_Builder_def)

lemma example_representable:
  "sizes_representable example_sizes example_params (min 1 10) 2"
  by (simp add: sizes_representable_def example_sizes_def example_params_def device_bytes_def
      region_bytes_def aligned512_def)

lemma example_device_bytes:
  "device_bytes (region_bytes example_sizes 2 12 1 0) = 4608"
  by (simp add: example_sizes_def device_bytes_def region_bytes_def aligned512_def)

lemma example_params_fields:
  "max_depth example_params = 2" "max_batch_size example_params = 2"
  "n_bins example_params = 2"
  by (simp_all add: example_params_def)

lemma example_sized_fields:
  "params example_sized_Builder = example_params"
  "n_blks_for_cols example_sized_Builder = 1"
  "nHistBins example_sized_Builder = 12"
  "block_sync_size example_sized_Builder = 0"
  using workspaceSize_fields(1,2,3,5)[of "Some 16384" 2 example_sizes 0 0 example_params "Some 4096"
      "Some 8192" 4 1 4 1 "Some 12288" example_Builder]
  by (simp_all add: example_sized_Builder_def example_workspaceSize_def example_fresh
      example_params_fields)

lemma example_aligned_IdxT: "aligned512 (sizeof_IdxT example_sizes) = 512"
  by (simp add: example_sizes_def aligned512_def)

lemma example_offsets:
  "region_offsets (region_bytes example_sizes 2 12 1 0) =
     [0, 512, 1024, 1536, 2048, 2048, 2560, 3072, 3584, 4096]"
  unfolding region_bytes_def region_offsets_10
  by (simp add: example_sizes_def aligned512_def)

subsection \<open>Workspace sizing\<close>

text \<open>
  C7. On a builder on which \<open>workspaceSize\<close> has not run before (\<open>n_blks_for_cols\<close> is
  still \<open>10\<close>), for every parameter set of the documented domain (\<open>max_depth \<ge> 0\<close>,
  quantiles present, sizes representable), \<open>workspaceSize\<close> returns; it sets \<open>maxNodes\<close>
  to \<open>2 ^ (max_depth + 1) - 1\<close> when \<open>max_depth < 13\<close> and to \<open>8191\<close> otherwise, sets
  \<open>nHistBins\<close> to \<open>max_batch_size * (n_bins + 1) * n_col_blks * nclasses\<close> with
  \<open>n_col_blks = min sampledCols 10\<close>, and reports as device byte count the sum of the
  512-byte-aligned sizes of the ten regions, the last one holding
  \<open>2 * max_batch_size\<close> nodes.
\<close>

theorem workspaceSize_sizes:
  assumes q: "q \<noteq> None"
    and fresh: "n_blks_for_cols b = 10"
    and depth: "0 \<le> max_depth p"
    and rep: "sizes_representable sz p (min sampledCols 10) ncls"
  shows "(let r = workspaceSize sz tid sd p dat lab totalRows totalCols sampledRows sampledCols
                    rid ncls q b
          in fst r =
               Inr (device_bytes
                      (region_bytes sz (max_batch_size p)
                         (max_batch_size p * (n_bins p + 1) * min sampledCols 10 * ncls)
                         (min sampledCols 10) 0),
                    aligned512 (sizeof_IdxT sz)) \<and>
             maxNodes (snd r) = (if max_depth p < 13 then 2 ^ nat (max_depth p + 1) - 1 else 8191) \<and>
             nHistBins (snd r) = max_batch_size p * (n_bins p + 1) * min sampledCols 10 * ncls)"
proof -
  have n1: "1 \<le> ncls" using rep by (simp add: sizes_representable_def)
  have rep': "sizes_representable sz p (min sampledCols (n_blks_for_cols b)) ncls"
    using rep fresh by simp
  have comm: "1 + n_bins p = n_bins p + 1" by simp
  show ?thesis
    unfolding Let_def
    using workspaceSize_Inr[OF q rep', of tid sd dat lab totalRows totalCols sampledRows rid]
      workspaceSize_fields(3,4)[OF q n1, of sz tid sd p dat lab totalRows totalCols sampledRows sampledCols rid b]
      depth fresh
    by (simp add: pow2_minus_1_def comm)
qed

theorem workspaceSize_sizes_witness:
  "(Some 16384 :: ptr) \<noteq> None \<and> n_blks_for_cols example_Builder = 10 \<and>
   0 \<le> max_depth example_params \<and>
   sizes_representable example_sizes example_params (min 1 10) 2 \<and>
   fst (example_workspaceSize example_params 2 (Some 16384)) = Inr (4608, 512) \<and>
   maxNodes (snd (example_workspaceSize example_params 2 (Some 16384))) = 7 \<and>
   nHistBins (snd (example_workspaceSize example_params 2 (Some 16384))) = 12"
proof -
  have h1: "(Some 16384 :: ptr) \<noteq> None" by simp
  have h3: "0 \<le> max_depth example_params" by (simp add: example_params_def)
  have a: "aligned512 (sizeof_IdxT example_sizes) = 512"
    by (simp add: example_sizes_def aligned512_def)
  show ?thesis
    using workspaceSize_sizes[OF h1 example_fresh h3 example_representable,
        of 0 0 "Some 4096" "Some 8192" 4 1 4 "Some 12288"] example_representable
    by (simp add: Let_def example_workspaceSize_def example_params_fields a
        example_device_bytes example_fresh)
qed

text \<open>
  C8. Two calls of \<open>workspaceSize\<close> in succession on the same builder with the same
  arguments give the same outcome: the second call takes the minimum of \<open>sampledCols\<close>
  and the field \<open>n_blks_for_cols\<close> that the first call has already clamped, and that
  reproduces the first call's sizes (or its assertion failure).
\<close>

theorem workspaceSize_twice:
  "fst (workspaceSize sz tid sd p dat lab totalRows totalCols sampledRows sampledCols rid ncls q
          (snd (workspaceSize sz tid sd p dat lab totalRows totalCols sampledRows sampledCols rid ncls q b)))
   = fst (workspaceSize sz tid sd p dat lab totalRows totalCols sampledRows sampledCols rid ncls q b)"
  by (simp add: workspaceSize_def Let_def)

text \<open>
  C9, as the claim states it, fails: a call with \<open>n_bins = 0\<close> and a split criterion
  outside the enumeration, with quantiles present and two classes, returns the sizes
  instead of raising an assertion failure.
\<close>

theorem workspaceSize_accepts_zero_bins:
  "n_bins (example_params\<lparr> n_bins := 0, split_criterion := 99 \<rparr>) < 1 \<and>
   fst (example_workspaceSize (example_params\<lparr> n_bins := 0, split_criterion := 99 \<rparr>) 2
          (Some 16384)) = Inr (4608, 512)"
proof -
  have rep: "sizes_representable example_sizes
               (example_params\<lparr> n_bins := 0, split_criterion := 99 \<rparr>)
               (min 1 (n_blks_for_cols example_Builder)) 2"
    by (simp add: sizes_representable_def example_sizes_def example_params_def
        device_bytes_def region_bytes_def aligned512_def example_fresh)
  have "fst (example_workspaceSize (example_params\<lparr> n_bins := 0, split_criterion := 99 \<rparr>) 2
          (Some 16384)) = Inr (4608, 512)"
    unfolding example_workspaceSize_def
    by (subst workspaceSize_Inr[OF _ rep])
       (simp_all add: example_sizes_def example_params_def device_bytes_def region_bytes_def
          aligned512_def example_fresh)
  then show ?thesis by simp
qed

text \<open>
  C9, amended. \<open>workspaceSize\<close> raises an assertion failure exactly when the quantiles
  pointer is null or \<open>nclasses < 1\<close>; it checks neither \<open>n_bins\<close> nor the split criterion
  nor the layout of the input.
\<close>

theorem workspaceSize_fails_iff:
  "isl (fst (workspaceSize sz tid sd p dat lab totalRows totalCols sampledRows sampledCols rid ncls q b))
   \<longleftrightarrow> (q = None \<or> ncls < 1)"
  by (simp add: workspaceSize_def Let_def)

theorem workspaceSize_fails_iff_witness:
  "isl (fst (example_workspaceSize example_params 2 None)) \<and>
   isl (fst (example_workspaceSize example_params 0 (Some 16384))) \<and>
   \<not> isl (fst (example_workspaceSize example_params 2 (Some 16384)))"
  using workspaceSize_fails_iff[of example_sizes 0 0 example_params "Some 4096" "Some 8192"
      4 1 4 1 "Some 12288" 2 None example_Builder]
    workspaceSize_fails_iff[of example_sizes 0 0 example_params "Some 4096" "Some 8192"
      4 1 4 1 "Some 12288" 0 "Some 16384" example_Builder]
    workspaceSize_fails_iff[of example_sizes 0 0 example_params "Some 4096" "Some 8192"
      4 1 4 1 "Some 12288" 2 "Some 16384" example_Builder]
  by (simp add: example_workspaceSize_def)

subsection \<open>Workspace binding\<close>

text \<open>
  C10. When \<open>workspaceSize\<close> has been called first and has returned, and the sizes are
  representable, the addresses at which \<open>assignWorkspace\<close> binds the ten device regions
  are the buffer address plus the running sums of the aligned region sizes that
  \<open>workspaceSize\<close> added into the device byte count. Hence every region starts at an
  offset that is a multiple of 512, a region ends before every later region starts, and
  the last region (\<open>next_nodes\<close>, \<open>2 * max_batch_size\<close> nodes) ends at or before the
  reported device byte count.
\<close>

theorem assignWorkspace_layout:
  fixes d_wspace h_wspace :: nat
  assumes ws: "workspaceSize sz tid sd p dat lab totalRows totalCols sampledRows sampledCols
                 rid ncls q b0 = (Inr (d_wsize, h_wsize), b)"
    and rep: "sizes_representable sz p (min sampledCols (n_blks_for_cols b0)) ncls"
  defines "rs \<equiv> region_bytes sz (max_batch_size (params b)) (nHistBins b) (n_blks_for_cols b)
                   (block_sync_size b)"
  defines "starts \<equiv> region_starts (assignWorkspace sz d_wspace h_wspace b)"
  shows "starts = map (\<lambda>off. d_wspace + off) (region_offsets rs) \<and>
         d_wsize = device_bytes rs \<and>
         (\<forall>k<10. 512 dvd region_offsets rs ! k) \<and>
         (\<forall>j<10. \<forall>k<10. j < k \<longrightarrow> starts ! j + rs ! j \<le> starts ! k) \<and>
         starts ! 9 + rs ! 9 \<le> d_wspace + d_wsize"
proof -
  have isl: "\<not> isl (fst (workspaceSize sz tid sd p dat lab totalRows totalCols sampledRows
                 sampledCols rid ncls q b0))"
    using ws by simp
  then have q: "q \<noteq> None" and n1: "1 \<le> ncls"
    by (simp_all add: workspaceSize_isl)
  have b: "b = snd (workspaceSize sz tid sd p dat lab totalRows totalCols sampledRows
                 sampledCols rid ncls q b0)"
    using ws by simp
  note fl = workspaceSize_fields[OF q n1, of sz tid sd p dat lab totalRows totalCols sampledRows
      sampledCols rid b0, folded b]
  note rf = region_facts[OF rep]
  have len: "length rs = 10" by (simp add: rs_def region_bytes_def)
  have rs: "rs = region_bytes sz (max_batch_size p)
                   (max_batch_size p * (1 + n_bins p) * min sampledCols (n_blks_for_cols b0) * ncls)
                   (min sampledCols (n_blks_for_cols b0)) 0"
    by (simp add: rs_def fl)
  have d: "d_wsize = device_bytes rs"
    using workspaceSize_Inr[OF q rep, of tid sd dat lab totalRows totalCols sampledRows rid] ws
    by (simp add: rs)
  have st: "starts = map (\<lambda>off. d_wspace + off) (region_offsets rs)"
    unfolding starts_def rs region_bytes_def region_offsets_10
    by (simp add: region_starts_def assignWorkspace_def Let_def fl rf(1-8))
  have offs: "length (region_offsets rs) = 10" by (simp add: region_offsets_def len)
  have al: "\<forall>k<10. 512 dvd region_offsets rs ! k"
    using len by (simp add: region_offsets_nth device_bytes_dvd)
  have dj: "\<forall>j<10. \<forall>k<10. j < k \<longrightarrow> starts ! j + rs ! j \<le> starts ! k"
    using region_offsets_disjoint[of _ _ rs] len offs by (simp add: st)
  have en: "starts ! 9 + rs ! 9 \<le> d_wspace + d_wsize"
    using region_offsets_end[of 9 rs] len offs by (simp add: st d)
  show ?thesis using st d al dj en by simp
qed

theorem assignWorkspace_layout_witness:
  "example_workspaceSize example_params 2 (Some 16384) = (Inr (4608, 512), example_sized_Builder) \<and>
   sizes_representable example_sizes example_params (min 1 (n_blks_for_cols example_Builder)) 2 \<and>
   region_starts (assignWorkspace example_sizes 4096 0 example_sized_Builder) =
     [4096, 4608, 5120, 5632, 6144, 6144, 6656, 7168, 7680, 8192] \<and>
   region_starts (assignWorkspace example_sizes 4096 0 example_sized_Builder) ! 9 + 192
     \<le> 4096 + 4608"
proof -
  have rep: "sizes_representable example_sizes example_params
               (min 1 (n_blks_for_cols example_Builder)) 2"
    using example_representable by (simp add: example_fresh)
  have "fst (example_workspaceSize example_params 2 (Some 16384)) = Inr (4608, 512)"
    unfolding example_workspaceSize_def
    by (subst workspaceSize_Inr[OF _ rep])
       (simp_all add: example_fresh example_params_fields example_device_bytes
          example_aligned_IdxT)
  then have ws: "example_workspaceSize example_params 2 (Some 16384) =
                   (Inr (4608, 512), example_sized_Builder)"
    by (simp add: example_sized_Builder_def prod_eq_iff)
  show ?thesis
    using assignWorkspace_layout[OF ws[unfolded example_workspaceSize_def] rep, of 4096 0] ws rep
    by (simp add: example_sized_fields example_params_fields example_offsets)
qed

subsection \<open>Objectives\<close>

text \<open>Each of the two gain functions updates the split with the candidates of the bins
  its thread visits, one after the other; the candidates are what the properties below
  are about.\<close>

lemma bin_loop_foldl:
  "bin_loop update cand nbins blockDim i sp =
     foldl update sp (map cand (thread_bins nbins blockDim i))"
proof (induction update cand nbins blockDim i sp rule: bin_loop.induct)
  case (1 update cand nbins blockDim i sp)
  note bl = bin_loop.simps[of update cand nbins blockDim i sp]
    and tb = thread_bins.simps[of nbins blockDim i]
  show ?case
  proof (cases "i < nbins \<and> 0 < blockDim")
    case True
    then show ?thesis using "1.IH" by (simp add: bl tb)
  next
    case False
    then show ?thesis by (auto simp: bl tb)
  qed
qed

lemma thread_bins_range:
  "j \<in> set (thread_bins nbins blockDim i) \<Longrightarrow> i \<le> j \<and> j < nbins"
proof (induction nbins blockDim i rule: thread_bins.induct)
  case (1 nbins blockDim i)
  note tb = thread_bins.simps[of nbins blockDim i]
  show ?case
  proof (cases "i < nbins \<and> 0 < blockDim")
    case True
    then have "j = i \<or> j \<in> set (thread_bins nbins blockDim (i + blockDim))"
      using "1.prems" by (simp add: tb)
    then show ?thesis
      using "1.IH" True by auto
  next
    case False
    then show ?thesis using "1.prems" by (auto simp: tb)
  qed
qed

lemma Gini_Gain_foldl:
  "Gini_Gain update sp0 threadIdx blockDim kMax obj shist sbins col len nbins =
     foldl update sp0
       (map (Gini_candidate kMax obj shist sbins col len nbins)
          (thread_bins nbins blockDim threadIdx))"
  by (simp add: Gini_Gain_def bin_loop_foldl)

lemma Entropy_Gain_foldl:
  "Entropy_Gain update sp0 threadIdx blockDim kMax obj shist sbins col len nbins =
     foldl update sp0
       (map (Entropy_candidate kMax obj shist sbins col len nbins)
          (thread_bins nbins blockDim threadIdx))"
  by (simp add: Entropy_Gain_def bin_loop_foldl)

lemma workspaceSize_input_nclasses:
  assumes "q \<noteq> None" and "1 \<le> ncls"
  shows "nclasses (input (snd (workspaceSize sz tid sd p dat lab totalRows totalCols sampledRows
            sampledCols rid ncls q b))) = ncls"
  using assms by (auto simp: workspaceSize_def Let_def)

lemma kMax_float_pos: "0 < kMax_float"
  by (simp add: kMax_float_def)

lemma upto_0_1: "[0..(1::int)] = [0, 1]"
  by (simp add: upto.simps)

lemma pure_split_nLeft: "hist_nLeft 2 pure_split_shist 2 0 = 2"
  by (simp add: hist_nLeft_def pure_split_shist_def upto_0_1)

lemma pure_split_Gini:
  assumes "gini_nclasses obj = 2" and "gini_min_samples_leaf obj \<le> 2"
    and "gini_min_impurity_decrease obj < 1 / 2"
  shows "Gini_candidate kMax obj pure_split_shist pure_split_sbins 0 4 2 0 =
           \<lparr> sp_threshold = 1 / 2, sp_column = 0, sp_gain = 1 / 2, sp_nLeft = 2 \<rparr>"
  using assms
  by (simp add: Gini_candidate_def Let_def pure_split_nLeft upto_0_1 Gini_class_step_def
      pure_split_shist_def pure_split_sbins_def)

lemma strict_leaf_objective:
  "computeSplit_objective_Gini strict_leaf_Builder =
     \<lparr> gini_nclasses = 2, gini_min_impurity_decrease = 0, gini_min_samples_leaf = 2 \<rparr>"
  using workspaceSize_fields(1)[of "Some 16384" 2 example_sizes 0 0 strict_leaf_params "Some 4096"
      "Some 8192" 4 1 4 1 "Some 12288" example_Builder]
    workspaceSize_input_nclasses[of "Some 16384" 2 example_sizes 0 0 strict_leaf_params "Some 4096"
      "Some 8192" 4 1 4 1 "Some 12288" example_Builder]
  by (simp add: computeSplit_objective_Gini_def GiniObjectiveFunction_ctor_def
      strict_leaf_Builder_def example_workspaceSize_def strict_leaf_params_def example_params_def
      trunc_def)

text \<open>
  C1. A candidate bin of a classification objective whose left or right sample count is
  below the caller's \<open>min_samples_leaf\<close> is to get the sentinel gain \<open>- kMax\<close>, the
  threshold of every objective built in \<open>computeSplit\<close> being the caller's
  \<open>min_samples_leaf\<close>. The code passes \<open>params.min_samples_split\<close> to the constructor
  instead: for a caller with \<open>min_samples_leaf = 3\<close> and \<open>min_samples_split = 2\<close> the
  objective's threshold is \<open>2\<close>, and the first bin of the pure-split histogram, with two
  samples on either side, keeps its gain \<open>1 / 2\<close>.
\<close>

theorem computeSplit_Gini_uses_min_samples_split:
  "min_samples_leaf (params strict_leaf_Builder) = 3 \<and>
   gini_min_samples_leaf (computeSplit_objective_Gini strict_leaf_Builder) = 2 \<and>
   Gini_candidate kMax_float (computeSplit_objective_Gini strict_leaf_Builder)
       pure_split_shist pure_split_sbins 0 4 2 0 =
     \<lparr> sp_threshold = 1 / 2, sp_column = 0, sp_gain = 1 / 2, sp_nLeft = 2 \<rparr> \<and>
   sp_gain (Gini_candidate kMax_float (computeSplit_objective_Gini strict_leaf_Builder)
              pure_split_shist pure_split_sbins 0 4 2 0) \<noteq> - kMax_float"
proof -
  have "params strict_leaf_Builder = strict_leaf_params"
    using workspaceSize_fields(1)[of "Some 16384" 2 example_sizes 0 0 strict_leaf_params
        "Some 4096" "Some 8192" 4 1 4 1 "Some 12288" example_Builder]
    by (simp add: strict_leaf_Builder_def example_workspaceSize_def)
  then have "min_samples_leaf (params strict_leaf_Builder) = 3"
    by (simp add: strict_leaf_params_def)
  then show ?thesis
    using kMax_float_pos by (simp add: strict_leaf_objective pure_split_Gini)
qed

text \<open>
  C2. The \<open>EntropyObjectiveFunction\<close> constructor is to store its three arguments, so
  that \<open>Gain\<close> vetoes exactly the candidates whose gain is at most the caller's
  \<open>min_impurity_decrease\<close>. The code stores the class count only; the two thresholds
  keep what the object's storage held. Constructed with the arguments \<open>(2, 1, 2)\<close> in
  zeroed storage, the object has both thresholds \<open>0\<close>, and the first bin of the
  pure-split histogram keeps its gain \<open>1\<close>, which is not above the caller's threshold
  \<open>1\<close>.
\<close>

theorem Entropy_ctor_ignores_thresholds:
  "EntropyObjectiveFunction_ctor zero_storage 2 1 2 =
     \<lparr> entropy_nclasses = 2, entropy_min_impurity_decrease = 0, entropy_min_samples_leaf = 0 \<rparr> \<and>
   Entropy_candidate kMax_float (EntropyObjectiveFunction_ctor zero_storage 2 1 2)
       pure_split_shist pure_split_sbins 0 4 2 0 =
     \<lparr> sp_threshold = 1 / 2, sp_column = 0, sp_gain = 1, sp_nLeft = 2 \<rparr> \<and>
   sp_gain (Entropy_candidate kMax_float (EntropyObjectiveFunction_ctor zero_storage 2 1 2)
              pure_split_shist pure_split_sbins 0 4 2 0) \<noteq> - kMax_float"
proof -
  have c: "EntropyObjectiveFunction_ctor zero_storage 2 1 2 =
     \<lparr> entropy_nclasses = 2, entropy_min_impurity_decrease = 0, entropy_min_samples_leaf = 0 \<rparr>"
    by (simp add: EntropyObjectiveFunction_ctor_def zero_storage_def trunc_def)
  have l: "ln (1 / 2 :: real) = - ln 2"
    by (simp add: ln_div)
  show ?thesis
    unfolding c
    using kMax_float_pos
    by (simp add: Entropy_candidate_def Let_def pure_split_nLeft upto_0_1 Entropy_class_step_def
      pure_split_shist_def pure_split_sbins_def myLog_def l)
qed

text \<open>The Gini gain of a candidate that passes the leaf-size guard (with
  \<open>1 \<le> min_samples_leaf\<close>, so that no divisor is zero), as the sums over the classes
  that the specification gives.\<close>

lemma foldl_add_sum_list:
  fixes f :: "'a::comm_monoid_add \<Rightarrow> 'b \<Rightarrow> 'a"
  assumes "\<And>a j. f a j = a + g j"
  shows "foldl f a js = a + sum_list (map g js)"
  by (induction js arbitrary: a) (simp_all add: assms add.assoc)

lemma Gini_class_step_add:
  "Gini_class_step shist nbins i invlen invLeft invRight a j =
     a + (real_of_int (shist (2 * nbins * j + i)) * invLeft
              * real_of_int (shist (2 * nbins * j + i)) * invlen
          + real_of_int (shist (2 * nbins * j + nbins + i)) * invRight
              * real_of_int (shist (2 * nbins * j + nbins + i)) * invlen
          - (real_of_int (shist (2 * nbins * j + i) + shist (2 * nbins * j + nbins + i)) * invlen)\<^sup>2)"
  by (simp add: Gini_class_step_def Let_def power2_eq_square)

lemma foldl_Gini_class_step:
  "foldl (Gini_class_step shist nbins i invlen invLeft invRight) a js =
     a + (\<Sum>j\<leftarrow>js.
            real_of_int (shist (2 * nbins * j + i)) * invLeft
              * real_of_int (shist (2 * nbins * j + i)) * invlen
          + real_of_int (shist (2 * nbins * j + nbins + i)) * invRight
              * real_of_int (shist (2 * nbins * j + nbins + i)) * invlen
          - (real_of_int (shist (2 * nbins * j + i) + shist (2 * nbins * j + nbins + i)) * invlen)\<^sup>2)"
  by (rule foldl_add_sum_list) (rule Gini_class_step_add)

lemma hist_nLeft_sum:
  "hist_nLeft ncls shist nbins i = (\<Sum>j\<leftarrow>[0..ncls - 1]. shist (2 * nbins * j + i))"
proof -
  have "foldl (\<lambda>nLeft j. nLeft + shist (2 * nbins * j + i)) 0 [0..ncls - 1] =
          0 + (\<Sum>j\<leftarrow>[0..ncls - 1]. shist (2 * nbins * j + i))"
    by (rule foldl_add_sum_list) simp
  then show ?thesis by (simp add: hist_nLeft_def)
qed

lemma Gini_candidate_gain:
  fixes shist :: "int \<Rightarrow> int" and nbins i len :: int and obj :: GiniObjectiveFunction
  defines "lval \<equiv> \<lambda>j. real_of_int (shist (2 * nbins * j + i))"
    and "rval \<equiv> \<lambda>j. real_of_int (shist (2 * nbins * j + nbins + i))"
  defines "nL \<equiv> hist_nLeft (gini_nclasses obj) shist nbins i"
  defines "g \<equiv> (\<Sum>j\<leftarrow>[0..gini_nclasses obj - 1].
                 ((lval j)\<^sup>2 / real_of_int nL + (rval j)\<^sup>2 / real_of_int (len - nL))
                   / real_of_int len)
              - (\<Sum>j\<leftarrow>[0..gini_nclasses obj - 1]. ((lval j + rval j) / real_of_int len)\<^sup>2)"
  assumes "1 \<le> gini_min_samples_leaf obj"
    and "gini_min_samples_leaf obj \<le> nL" and "gini_min_samples_leaf obj \<le> len - nL"
  shows "sp_gain (Gini_candidate kMax obj shist sbins col len nbins i) =
     (if g \<le> gini_min_impurity_decrease obj then - kMax else g)"
proof -
  have t: "real_of_int (shist (2 * nbins * j + i)) * (1 / real_of_int nL)
              * real_of_int (shist (2 * nbins * j + i)) * (1 / real_of_int len)
           + real_of_int (shist (2 * nbins * j + nbins + i)) * (1 / real_of_int (len - nL))
              * real_of_int (shist (2 * nbins * j + nbins + i)) * (1 / real_of_int len)
           - (real_of_int (shist (2 * nbins * j + i) + shist (2 * nbins * j + nbins + i))
                * (1 / real_of_int len))\<^sup>2
         = ((lval j)\<^sup>2 / real_of_int nL + (rval j)\<^sup>2 / real_of_int (len - nL))
                   / real_of_int len
           - ((lval j + rval j) / real_of_int len)\<^sup>2" for j
    by (simp add: lval_def rval_def power2_eq_square add_divide_distrib)
  have fold_eq:
    "foldl (Gini_class_step shist nbins i (1 / real_of_int len) (1 / real_of_int nL)
              (1 / real_of_int (len - nL))) 0 [0..gini_nclasses obj - 1] = g"
    unfolding foldl_Gini_class_step t g_def
    by (simp add: sum_list_subtractf)
  have guard: "\<not> (nL < gini_min_samples_leaf obj \<or> len - nL < gini_min_samples_leaf obj)"
    using assms(6,7) by simp
  show ?thesis
    unfolding Gini_candidate_def Let_def nL_def[symmetric]
    by (simp only: guard if_False fold_eq Split.simps)
qed

lemma fractional_objective:
  "computeSplit_objective_Gini fractional_Builder =
     \<lparr> gini_nclasses = 2, gini_min_impurity_decrease = 0, gini_min_samples_leaf = 2 \<rparr>"
  using workspaceSize_fields(1)[of "Some 16384" 2 example_sizes 0 0 fractional_params "Some 4096"
      "Some 8192" 4 1 4 1 "Some 12288" example_Builder]
    workspaceSize_input_nclasses[of "Some 16384" 2 example_sizes 0 0 fractional_params "Some 4096"
      "Some 8192" 4 1 4 1 "Some 12288" example_Builder]
  by (simp add: computeSplit_objective_Gini_def GiniObjectiveFunction_ctor_def
      fractional_Builder_def example_workspaceSize_def fractional_params_def example_params_def
      trunc_def)

text \<open>
  C4. The Gini gain of a bin that passes the leaf-size guard is the specification's sum
  (lemma \<open>Gini_candidate_gain\<close>), and it is to be replaced by the sentinel exactly when
  it is at most the caller's floating-point \<open>min_impurity_decrease\<close>. The constructor
  takes the threshold as an \<open>IdxT\<close>, so the caller's value is truncated: for a caller
  with \<open>min_impurity_decrease = 1 / 2\<close> the objective's threshold is \<open>0\<close>, and the
  first bin of the pure-split histogram keeps its gain \<open>1 / 2\<close>, which is not above the
  caller's threshold.
\<close>

theorem computeSplit_Gini_truncates_threshold:
  "min_impurity_decrease (params fractional_Builder) = 1 / 2 \<and>
   gini_min_impurity_decrease (computeSplit_objective_Gini fractional_Builder) = 0 \<and>
   Gini_candidate kMax_float (computeSplit_objective_Gini fractional_Builder)
       pure_split_shist pure_split_sbins 0 4 2 0 =
     \<lparr> sp_threshold = 1 / 2, sp_column = 0, sp_gain = 1 / 2, sp_nLeft = 2 \<rparr> \<and>
   sp_gain (Gini_candidate kMax_float (computeSplit_objective_Gini fractional_Builder)
              pure_split_shist pure_split_sbins 0 4 2 0) \<noteq> - kMax_float"
proof -
  have "params fractional_Builder = fractional_params"
    using workspaceSize_fields(1)[of "Some 16384" 2 example_sizes 0 0 fractional_params
        "Some 4096" "Some 8192" 4 1 4 1 "Some 12288" example_Builder]
    by (simp add: fractional_Builder_def example_workspaceSize_def)
  then have "min_impurity_decrease (params fractional_Builder) = 1 / 2"
    by (simp add: fractional_params_def)
  then show ?thesis
    using kMax_float_pos by (simp add: fractional_objective pure_split_Gini)
qed

subsection \<open>The training loop\<close>

lemma length_resize: "length (resize z n xs) = n"
  by (simp add: resize_def)

lemma length_copy_elems: "length (copy_elems dst doff src soff len) = length dst"
proof -
  have "length (fold (\<lambda>k d. d[doff + k := src ! (soff + k)]) ks dst) = length dst" for ks
    by (induction ks arbitrary: dst) simp_all
  then show ?thesis by (simp add: copy_elems_def)
qed

lemma builder_doSplit: "builder (fst (doSplit K s)) = builder s"
  by (simp add: doSplit_def Let_def)

lemma snd_doSplit:
  "snd (doSplit K s) =
     d_n_nodes (K (builder s)
       ((dev s)\<lparr> d_n_nodes := 0,
                  d_curr_nodes := copy_elems (d_curr_nodes (dev s)) 0 (h_nodes s)
                     (nat (node_start (builder s)))
                     (nat (node_end (builder s) - node_start (builder s))) \<rparr>))"
  by (simp add: doSplit_def Let_def)

lemma length_h_nodes_doSplit:
  "length (h_nodes (fst (doSplit K s))) =
     size_t_add
       (size_t_add (length (h_nodes s))
          (to_size_t (node_end (builder s) - node_start (builder s))))
       (to_size_t (snd (doSplit K s)))"
  by (simp add: doSplit_def Let_def length_copy_elems length_resize)

lemma snd_doSplit_nonneg:
  assumes "\<forall>b d. d_n_nodes d \<le> d_n_nodes (K b d)"
  shows "0 \<le> snd (doSplit K s)"
proof -
  let ?d = "(dev s)\<lparr> d_n_nodes := 0,
                  d_curr_nodes := copy_elems (d_curr_nodes (dev s)) 0 (h_nodes s)
                     (nat (node_start (builder s)))
                     (nat (node_end (builder s) - node_start (builder s))) \<rparr>"
  have "d_n_nodes ?d \<le> d_n_nodes (K (builder s) ?d)" using assms by blast
  then show ?thesis by (simp add: snd_doSplit)
qed

lemma builder_init:
  "builder (init s) = (builder s)\<lparr> node_start := 0, h_total_nodes := 1, node_end := 1 \<rparr>"
  by (simp add: init_def Let_def)

lemma train_step_eq:
  "train_step K s =
     (if snd (doSplit K s) = 0 \<and> node_end (builder s) = h_total_nodes (builder s)
      then Inl ((fst (doSplit K s))\<lparr> builder := (builder s)\<lparr> h_total_nodes :=
                  h_total_nodes (builder s) + snd (doSplit K s) \<rparr> \<rparr>)
      else Inr ((fst (doSplit K s))\<lparr> builder := updateNodeRange ((builder s)\<lparr> h_total_nodes :=
                  h_total_nodes (builder s) + snd (doSplit K s) \<rparr>) \<rparr>))"
  by (simp add: train_step_def split_beta Let_def builder_doSplit isOver_def)

lemma train_step_Inr:
  assumes "train_step K t = Inr t'"
  shows "builder t' = updateNodeRange
           ((builder t)\<lparr> h_total_nodes := h_total_nodes (builder t) + snd (doSplit K t) \<rparr>)"
proof (cases "snd (doSplit K t) = 0 \<and> node_end (builder t) = h_total_nodes (builder t)")
  case True
  then show ?thesis using assms by (simp add: train_step_eq)
next
  case False
  then have "t' = (fst (doSplit K t))\<lparr> builder := updateNodeRange ((builder t)\<lparr> h_total_nodes :=
                  h_total_nodes (builder t) + snd (doSplit K t) \<rparr>) \<rparr>"
    using assms by (auto simp: train_step_eq split: if_splits)
  then show ?thesis by simp
qed

lemma train_step_isl:
  "isl (train_step K t) \<longleftrightarrow>
     snd (doSplit K t) = 0 \<and> node_end (builder t) = h_total_nodes (builder t)"
  by (simp add: train_step_eq)

lemma updateNodeRange_fields:
  "node_start (updateNodeRange b) = node_end b"
  "node_end (updateNodeRange b) =
     node_end b + min (h_total_nodes b - node_end b) (max_batch_size (params b))"
  "h_total_nodes (updateNodeRange b) = h_total_nodes b"
  "params (updateNodeRange b) = params b"
  by (simp_all add: updateNodeRange_def Let_def)

lemma range_step:
  fixes s e T m n :: int
  assumes "e \<le> T" and "0 \<le> n" and "1 \<le> m"
  shows "e \<le> min (T + n - e) m + e" and "min (T + n - e) m + e \<le> T + n"
    and "min (T + n - e) m + e - e \<le> m"
  using assms by (simp_all add: min_def)

lemma frontier_ok_step:
  assumes ok: "frontier_ok b" and n: "0 \<le> n" and mb: "1 \<le> max_batch_size (params b)"
  shows "frontier_ok (updateNodeRange (b\<lparr> h_total_nodes := h_total_nodes b + n \<rparr>))"
proof -
  have e: "node_end b \<le> h_total_nodes b" using ok by (simp add: frontier_ok_def)
  note rs = range_step[OF e n mb]
  show ?thesis
    unfolding frontier_ok_def updateNodeRange_def Let_def
    using rs by simp
qed

lemma loop_head_invariant:
  assumes mb: "1 \<le> max_batch_size (params (builder s0))"
    and K: "\<forall>b d. d_n_nodes d \<le> d_n_nodes (K b d)"
    and head: "loop_head k K s0 = Some t"
  shows "frontier_ok (builder t) \<and> params (builder t) = params (builder s0)"
  using head
proof (induction k arbitrary: t)
  case 0
  then have "t = init s0" by simp
  then show ?case using mb by (simp add: builder_init frontier_ok_def)
next
  case (Suc k)
  obtain u where u: "loop_head k K s0 = Some u"
    using Suc.prems by (cases "loop_head k K s0") simp_all
  have st: "train_step K u = Inr t"
    using Suc.prems u by (cases "train_step K u") simp_all
  have ih: "frontier_ok (builder u)" and pr: "params (builder u) = params (builder s0)"
    using Suc.IH[OF u] by simp_all
  have n: "0 \<le> snd (doSplit K u)" using K by (rule snd_doSplit_nonneg)
  have mb': "1 \<le> max_batch_size (params (builder u))" using mb pr by simp
  have "frontier_ok (builder t)"
    unfolding train_step_Inr[OF st] by (rule frontier_ok_step[OF ih n mb'])
  moreover have "params (builder t) = params (builder s0)"
    unfolding train_step_Inr[OF st] using pr by (simp add: updateNodeRange_fields)
  ultimately show ?case by simp
qed

text \<open>
  C6. With \<open>1 \<le> max_batch_size\<close> and kernels that never decrement the \<open>n_nodes\<close>
  counter: at the head of every pass of the loop of \<open>train\<close> the frontier satisfies
  \<open>node_start \<le> node_end \<le> h_total_nodes\<close> and holds at most \<open>max_batch_size\<close>
  nodes; after a batch that does not end the loop, \<open>h_total_nodes\<close> has grown by the
  number of new nodes and \<open>updateNodeRange\<close> has set \<open>node_start\<close> to the old
  \<open>node_end\<close> and \<open>node_end\<close> to the old \<open>node_end\<close> plus
  \<open>min (h_total_nodes - node_end) max_batch_size\<close>; and the pass leaves the loop
  exactly when \<open>doSplit\<close> returns zero new nodes and \<open>node_end\<close> equals
  \<open>h_total_nodes\<close>.
\<close>

theorem train_frontier_range:
  assumes mb: "1 \<le> max_batch_size (params (builder s0))"
    and K: "\<forall>b d. d_n_nodes d \<le> d_n_nodes (K b d)"
    and head: "loop_head k K s0 = Some t"
  shows "node_start (builder t) \<le> node_end (builder t) \<and>
         node_end (builder t) \<le> h_total_nodes (builder t) \<and>
         node_end (builder t) - node_start (builder t) \<le> max_batch_size (params (builder t)) \<and>
         (\<forall>t'. train_step K t = Inr t' \<longrightarrow>
            h_total_nodes (builder t') = h_total_nodes (builder t) + snd (doSplit K t) \<and>
            node_start (builder t') = node_end (builder t) \<and>
            node_end (builder t') =
              node_end (builder t) +
                min (h_total_nodes (builder t') - node_end (builder t))
                  (max_batch_size (params (builder t)))) \<and>
         node_start (updateNodeRange b) = node_end b \<and>
         node_end (updateNodeRange b) =
           node_end b + min (h_total_nodes b - node_end b) (max_batch_size (params b)) \<and>
         (isl (train_step K t) \<longleftrightarrow>
            snd (doSplit K t) = 0 \<and> node_end (builder t) = h_total_nodes (builder t))"
proof -
  have "frontier_ok (builder t)"
    using loop_head_invariant[OF mb K head] by simp
  moreover have "h_total_nodes (builder t') = h_total_nodes (builder t) + snd (doSplit K t) \<and>
            node_start (builder t') = node_end (builder t) \<and>
            node_end (builder t') =
              node_end (builder t) +
                min (h_total_nodes (builder t') - node_end (builder t))
                  (max_batch_size (params (builder t)))"
    if "train_step K t = Inr t'" for t'
    unfolding train_step_Inr[OF that] by (simp add: updateNodeRange_fields)
  ultimately show ?thesis
    by (simp add: frontier_ok_def updateNodeRange_fields train_step_isl)
qed

lemma copy_elems_0: "copy_elems dst doff src soff 0 = dst"
  by (simp add: copy_elems_def)

lemma copy_elems_1: "copy_elems dst doff src soff (Suc 0) = dst[doff := src ! soff]"
  by (simp add: copy_elems_def)

lemma copy_elems_2:
  "copy_elems dst doff src soff 2 = dst[doff := src ! soff, Suc doff := src ! Suc soff]"
  by (simp add: copy_elems_def numeral_2_eq_2)

lemma replicate_numerals:
  "replicate 2 x = [x, x]" "replicate 3 x = [x, x, x]" "replicate 4 x = [x, x, x, x]"
  by (simp_all add: numeral_eq_Suc)

lemma example_sizes_sum:
  "size_t_add (size_t_add (Suc 0) (to_size_t 1)) (to_size_t 2) = 4"
  "size_t_add (size_t_add (Suc (Suc (Suc (Suc 0)))) (to_size_t 2)) (to_size_t 0) = 6"
  by (simp_all add: size_t_add_def to_size_t_def)


lemma example_builder_fields:
  "params (builder example_train_state) = example_params"
  "nSampledRows (input (builder example_train_state)) = 4"
  using workspaceSize_fields(1)[of "Some 16384" 2 example_sizes 0 0 example_params "Some 4096"
      "Some 8192" 4 1 4 1 "Some 12288" example_Builder]
  by (simp_all add: example_train_state_def assignWorkspace_def Let_def example_sized_Builder_def
      example_workspaceSize_def workspaceSize_def)

lemma example_init:
  "init example_train_state =
     example_train_state\<lparr> h_n_nodes_value := 0,
       dev := example_device,
       builder := (builder example_train_state)\<lparr> node_start := 0, h_total_nodes := 1,
                     node_end := 1 \<rparr>,
       h_nodes := [Node_zero\<lparr> count := 4, split_feature := - 1, left_child_id := - 1 \<rparr>] \<rparr>"
  by (simp add: init_def Let_def resize_def initSpNode_def example_builder_fields)
     (simp add: example_train_state_def example_device_def Node_zero_def)

lemma example_doSplit_1:
  "doSplit example_kernels (init example_train_state) =
     ((init example_train_state)\<lparr>
         dev := example_device\<lparr> d_n_nodes := 2, d_n_depth := 1,
                  d_curr_nodes := [example_root, Node_zero],
                  d_next_nodes := [example_child 0 1, example_child 2 2, Node_zero, Node_zero] \<rparr>,
         h_n_nodes_value := 2,
         h_nodes := [example_root, example_child 0 1, example_child 2 2, Node_zero] \<rparr>, 2)"
  unfolding example_init
  by (simp add: doSplit_def Let_def example_kernels_def example_device_def copy_elems_1
      copy_elems_2 example_sizes_sum resize_def example_root_def replicate_numerals
      list_update_code)

lemma example_train_step_1:
  "train_step example_kernels (init example_train_state) = Inr example_state_2"
  unfolding train_step_eq example_doSplit_1
  by (simp add: example_init example_state_2_def updateNodeRange_def Let_def
      example_builder_fields example_params_fields)

lemma example_doSplit_2:
  "doSplit example_kernels example_state_2 = (example_state_3, 0)"
  unfolding example_state_3_def
  unfolding example_state_2_def
  by (simp add: doSplit_def Let_def example_kernels_def example_device_def copy_elems_0
      copy_elems_2 example_sizes_sum resize_def replicate_numerals list_update_code
      example_final_nodes_def)

lemma example_train_step_2:
  "train_step example_kernels example_state_2 = Inl example_state_3"
  unfolding train_step_eq example_doSplit_2
  by (simp add: example_state_3_def) (simp add: example_state_2_def)

theorem train_frontier_range_witness:
  "1 \<le> max_batch_size (params (builder example_train_state)) \<and>
   (\<forall>b d. d_n_nodes d \<le> d_n_nodes (example_kernels b d)) \<and>
   loop_head 0 example_kernels example_train_state = Some (init example_train_state) \<and>
   loop_head 1 example_kernels example_train_state = Some example_state_2 \<and>
   train_step example_kernels (init example_train_state) = Inr example_state_2 \<and>
   node_start (builder (init example_train_state)) = 0 \<and>
   node_end (builder (init example_train_state)) = 1 \<and>
   h_total_nodes (builder (init example_train_state)) = 1 \<and>
   node_start (builder example_state_2) = 1 \<and>
   node_end (builder example_state_2) = 3 \<and>
   h_total_nodes (builder example_state_2) = 3 \<and>
   max_batch_size (params (builder example_state_2)) = 2 \<and>
   \<not> isl (train_step example_kernels (init example_train_state)) \<and>
   isl (train_step example_kernels example_state_2)"
proof -
  have h1: "1 \<le> max_batch_size (params (builder example_train_state))"
    by (simp add: example_builder_fields example_params_fields)
  have h2: "\<forall>b d. d_n_nodes d \<le> d_n_nodes (example_kernels b d)"
    by (simp add: example_kernels_def)
  have h3: "loop_head 0 example_kernels example_train_state = Some (init example_train_state)"
    by simp
  have h4: "loop_head 1 example_kernels example_train_state = Some example_state_2"
    using example_train_step_1 by simp
  have f: "node_start (builder example_state_2) = 1" "node_end (builder example_state_2) = 3"
    "h_total_nodes (builder example_state_2) = 3"
    "max_batch_size (params (builder example_state_2)) = 2"
    by (simp_all add: example_state_2_def example_builder_fields example_params_fields)
  have g: "node_start (builder (init example_train_state)) = 0"
    "node_end (builder (init example_train_state)) = 1"
    "h_total_nodes (builder (init example_train_state)) = 1"
    by (simp_all add: builder_init)
  show ?thesis
    using train_frontier_range[OF h1 h2 h3] train_frontier_range[OF h1 h2 h4] h1 h2 h3 h4 f g
    by (simp add: example_doSplit_2 example_train_step_1)
qed

text \<open>
  C3. After \<open>train\<close> returns, \<open>h_nodes\<close> is to hold exactly \<open>h_total_nodes\<close> entries,
  with no trailing entries that were never written. \<open>doSplit\<close> writes the updated
  parents in place and the new children at index \<open>h_total_nodes\<close>, but it grows the
  vector by \<open>batchSize + *h_n_nodes\<close> entries (lemma \<open>length_h_nodes_doSplit\<close>), so
  every batch leaves \<open>batchSize\<close> value-initialised entries behind. In the example run
  of two batches \<open>train\<close> returns with \<open>h_total_nodes = 3\<close> and six entries, the last
  three of them value-initialised.
\<close>

theorem train_leaves_trailing_entries:
  "map_option (\<lambda>(s, leaves, dep). (h_nodes s, h_total_nodes (builder s), leaves, dep))
     (train 2 example_kernels example_train_state) =
   Some ([example_root, (example_child 0 1)\<lparr> is_leaf := True \<rparr>,
          (example_child 2 2)\<lparr> is_leaf := True \<rparr>, Node_zero, Node_zero, Node_zero], 3, 2, 1)"
  by (simp add: train_def numeral_2_eq_2 example_train_step_1 example_train_step_2)
     (simp add: example_state_3_def example_state_2_def example_final_nodes_def
        example_device_def)

end
